theory Spec2Isabelle
  imports Main
begin

section \<open>Errors\<close>

text \<open>
  The adapters return Go \<^verbatim>\<open>error\<close> values, made in three ways:
  \<^item> \<^verbatim>\<open>fmt.Errorf(format, args...)\<close>: kept as the format string with its arguments, in
    order (an argument that is itself an error stands by its message);
  \<^item> \<^verbatim>\<open>tf.ImportAsExistsError(resourceName, id)\<close>, see below;
  \<^item> \<^verbatim>\<open>return err\<close>: an error of the client resolver or of the operating system handed
    on as it is, kept by its message.
  Errors of the vendor SDK are opaque to the adapters: they are strings (the message).
\<close>

text \<open>
  Modelled from the spec: \<^verbatim>\<open>tf.ImportAsExistsError\<close> is a helper of this repository outside
  these sources. The spec calls what it returns an "already exists, use import" signal
  "distinct from ordinary errors": it is a constructor of its own, holding the two arguments
  of the call.
\<close>

datatype error =
    Errorf string "string list"
  | ImportAsExistsError string string
  | Passed string

section \<open>Name validators\<close>

text \<open>
  The validators test a name with regular expressions and \<^verbatim>\<open>len\<close>. Go strings are byte
  sequences and \<^verbatim>\<open>len\<close> counts bytes, as \<open>length\<close> does on a \<open>string\<close>. All character
  classes are ASCII, so a byte of a multi-byte rune is in none of them. Go's \<^verbatim>\<open>^\<close> and
  \<^verbatim>\<open>$\<close> (no flags) match only at the beginning and at the end of the text.
\<close>

definition lower :: "char list" where
  "lower = ''abcdefghijklmnopqrstuvwxyz''"

definition upper :: "char list" where
  "upper = ''ABCDEFGHIJKLMNOPQRSTUVWXYZ''"

definition digit :: "char list" where
  "digit = ''0123456789''"

text \<open>\<^verbatim>\<open>^[a-z0-9-]+$\<close> (and \<^verbatim>\<open>^[0-9a-z-]+$\<close>): one or more characters, each a lowercase
  letter, a digit or a hyphen.\<close>

definition matches_lower_alnum_hyphen :: "string \<Rightarrow> bool" where
  "matches_lower_alnum_hyphen v \<longleftrightarrow>
     v \<noteq> [] \<and> list_all (\<lambda>c. c \<in> set lower \<or> c \<in> set digit \<or> c = CHR ''-'') v"

text \<open>\<^verbatim>\<open>^-\<close>: the text begins with a hyphen.\<close>

definition matches_leading_hyphen :: "string \<Rightarrow> bool" where
  "matches_leading_hyphen v \<longleftrightarrow> (case v of [] \<Rightarrow> False | c # _ \<Rightarrow> c = CHR ''-'')"

text \<open>\<^verbatim>\<open>-$\<close>: the text ends with a hyphen.\<close>

definition matches_trailing_hyphen :: "string \<Rightarrow> bool" where
  "matches_trailing_hyphen v \<longleftrightarrow> (case rev v of [] \<Rightarrow> False | c # _ \<Rightarrow> c = CHR ''-'')"

text \<open>\<^verbatim>\<open>^[A-Za-z][A-Za-z0-9]{2,62}$\<close>: a letter, then between 2 and 62 letters or digits.\<close>

definition matches_table_name :: "string \<Rightarrow> bool" where
  "matches_table_name v \<longleftrightarrow>
     (case v of
        [] \<Rightarrow> False
      | c # cs \<Rightarrow>
          (c \<in> set upper \<or> c \<in> set lower) \<and>
          list_all (\<lambda>x. x \<in> set upper \<or> x \<in> set lower \<or> x \<in> set digit) cs \<and>
          2 \<le> length cs \<and> length cs \<le> 62)"

text \<open>\<^verbatim>\<open>^\$root$|^[0-9a-z-]+$\<close>: the literal \<^verbatim>\<open>$root\<close>, or the lowercase class as above.\<close>

definition matches_container_name :: "string \<Rightarrow> bool" where
  "matches_container_name v \<longleftrightarrow> v = ''$root'' \<or> matches_lower_alnum_hyphen v"

text \<open>
  Each validator returns \<^verbatim>\<open>(ws []string, errors []error)\<close>. No validator assigns \<^verbatim>\<open>ws\<close>, so
  the first component is always empty; \<^verbatim>\<open>errors\<close> grows by \<^verbatim>\<open>append\<close>, one independent
  \<^verbatim>\<open>if\<close> after the other.
\<close>

definition validateArmStorageTableName :: "string \<Rightarrow> string \<Rightarrow> string list \<times> error list" where
  "validateArmStorageTableName v k =
     (let errors = [];
          errors = (if v = ''table''
                    then errors @ [Errorf ''Table Storage %q cannot use the word `table`: %q'' [k, v]]
                    else errors);
          errors = (if \<not> matches_table_name v
                    then errors @ [Errorf ''Table Storage %q cannot begin with a numeric character, only alphanumeric characters are allowed and must be between 3 and 63 characters long: %q'' [k, v]]
                    else errors)
      in ([], errors))"

definition validateArmStorageQueueName :: "string \<Rightarrow> string \<Rightarrow> string list \<times> error list" where
  "validateArmStorageQueueName v k =
     (let errors = [];
          errors = (if \<not> matches_lower_alnum_hyphen v
                    then errors @ [Errorf ''only lowercase alphanumeric characters and hyphens allowed in %q'' [k]]
                    else errors);
          errors = (if matches_leading_hyphen v
                    then errors @ [Errorf ''%q cannot start with a hyphen'' [k]]
                    else errors);
          errors = (if matches_trailing_hyphen v
                    then errors @ [Errorf ''%q cannot end with a hyphen'' [k]]
                    else errors);
          errors = (if length v > 63
                    then errors @ [Errorf ''%q cannot be longer than 63 characters'' [k]]
                    else errors);
          errors = (if length v < 3
                    then errors @ [Errorf ''%q must be at least 3 characters'' [k]]
                    else errors)
      in ([], errors))"

definition validateArmStorageContainerName :: "string \<Rightarrow> string \<Rightarrow> string list \<times> error list" where
  "validateArmStorageContainerName v k =
     (let errors = [];
          errors = (if \<not> matches_container_name v
                    then errors @ [Errorf ''only lowercase alphanumeric characters and hyphens allowed in %q: %q'' [k, v]]
                    else errors);
          errors = (if length v < 3 \<or> length v > 63
                    then errors @ [Errorf ''%q must be between 3 and 63 characters: %q'' [k, v]]
                    else errors);
          errors = (if matches_leading_hyphen v
                    then errors @ [Errorf ''%q cannot begin with a hyphen: %q'' [k, v]]
                    else errors)
      in ([], errors))"

section \<open>Local state and the remote side\<close>

text \<open>
  \<^verbatim>\<open>schema.ResourceData\<close>, as far as the adapters use it: the local identifier
  (\<^verbatim>\<open>d.Id()\<close>, \<^verbatim>\<open>d.SetId(v)\<close>), the string fields of the schema (\<^verbatim>\<open>d.Get(k).(string)\<close>,
  \<^verbatim>\<open>d.Set(k, v)\<close>; a field never set reads as the empty string) and the computed map
  \<^verbatim>\<open>properties\<close> of the container resource.
\<close>

record ResourceData =
  Id :: string
  Get :: "string \<Rightarrow> string"
  properties :: "string \<rightharpoonup> string"

text \<open>\<^verbatim>\<open>storage.Table\<close> and \<^verbatim>\<open>storage.Container\<close> of the vendor SDK, with the fields read here.\<close>

record Table =
  Name :: string

record ContainerProperties =
  LastModified :: string
  LeaseStatus :: string
  LeaseState :: string
  LeaseDuration :: string

record Container =
  Name :: string
  Properties :: ContainerProperties

text \<open>
  The remote side is a parameter of every adapter: a state \<open>'w\<close> of the cloud (and of the
  local file system, for the file resource) and the calls the adapter makes on it. A query
  reads the state; a call that changes the remote side returns the new state. An SDK call
  that returns \<^verbatim>\<open>(value, err)\<close> is a pair or a sum here, \<open>Inl\<close> or \<open>Some\<close> holding the
  message of the error. The contexts and their deadlines are not part of the model.

  The client resolvers (\<^verbatim>\<open>getTableServiceClientForStorageAccount\<close> and its two siblings) are
  methods of \<^verbatim>\<open>ArmClient\<close>, outside these sources: they enter as fields, returning the
  triple \<^verbatim>\<open>(client, accountExists, err)\<close> that the adapters test. A reference
  (\<^verbatim>\<open>GetTableReference(name)\<close> and the like) is the client with the name.
\<close>

record ('w, 'c) TableApi =
  getTableServiceClientForStorageAccount :: "'w \<Rightarrow> string \<Rightarrow> string \<Rightarrow> 'c \<times> bool \<times> string option"
  QueryTables :: "'w \<Rightarrow> 'c \<Rightarrow> string + Table list"
  Table_Create :: "'c \<times> string \<Rightarrow> 'w \<Rightarrow> string option \<times> 'w"
  Table_Delete :: "'c \<times> string \<Rightarrow> 'w \<Rightarrow> string option \<times> 'w"

record ('w, 'c) QueueApi =
  getQueueServiceClientForStorageAccount :: "'w \<Rightarrow> string \<Rightarrow> string \<Rightarrow> 'c \<times> bool \<times> string option"
  Queue_Exists :: "'w \<Rightarrow> 'c \<times> string \<Rightarrow> bool \<times> string option"
  Queue_Create :: "'c \<times> string \<Rightarrow> 'w \<Rightarrow> string option \<times> 'w"
  Queue_Delete :: "'c \<times> string \<Rightarrow> 'w \<Rightarrow> string option \<times> 'w"

text \<open>
  \<^verbatim>\<open>CreateIfNotExists\<close> is the one call made under a wall-clock budget, so its answer
  carries the time the call took (in nanoseconds, the unit of \<^verbatim>\<open>time.Duration\<close>).
\<close>

record ('w, 'c) BlobApi =
  getBlobStorageClientForStorageAccount :: "'w \<Rightarrow> string \<Rightarrow> string \<Rightarrow> 'c \<times> bool \<times> string option"
  Container_Exists :: "'w \<Rightarrow> 'c \<times> string \<Rightarrow> bool \<times> string option"
  Container_CreateIfNotExists :: "'c \<times> string \<Rightarrow> 'w \<Rightarrow> ((bool \<times> string option) \<times> nat) \<times> 'w"
  Container_SetPermissions :: "'c \<times> string \<Rightarrow> string \<Rightarrow> 'w \<Rightarrow> string option \<times> 'w"
  ListContainers :: "'w \<Rightarrow> 'c \<Rightarrow> string \<Rightarrow> string + Container list"
  Container_DeleteIfExists :: "'c \<times> string \<Rightarrow> 'w \<Rightarrow> (bool \<times> string option) \<times> 'w"

text \<open>
  An HTTP response as the file adapter looks at it: its status code, or \<open>None\<close> when the
  call produced no response at all.
\<close>

type_synonym Response = "nat option"

record ('w, 'f) FileApi =
  os_Open :: "'w \<Rightarrow> string \<Rightarrow> string + 'f"
  ioutil_ReadAll :: "'w \<Rightarrow> 'f \<Rightarrow> string + string"
  Files_Create :: "string \<Rightarrow> string \<Rightarrow> string \<Rightarrow> bool \<Rightarrow> 'w \<Rightarrow> string option \<times> 'w"
  GetFileStatus :: "'w \<Rightarrow> string \<Rightarrow> string \<Rightarrow> Response \<times> string option"
  Files_Delete :: "string \<Rightarrow> string \<Rightarrow> bool \<Rightarrow> 'w \<Rightarrow> (Response \<times> string option) \<times> 'w"

text \<open>
  Modelled from the spec: \<^verbatim>\<open>utils.ResponseWasNotFound\<close> and \<^verbatim>\<open>response.WasNotFound\<close> are
  helpers of this repository outside these sources. The spec has the adapters "inspect the
  response for a not found condition": the response carries the HTTP status 404.
\<close>

definition ResponseWasNotFound :: "Response \<Rightarrow> bool" where
  "ResponseWasNotFound resp \<longleftrightarrow> resp = Some 404"

text \<open>
  Modelled from the spec: \<^verbatim>\<open>response.WasNotFound\<close>, the helper that the file adapter's
  Delete calls, is the same test.
\<close>

definition WasNotFound :: "Response \<Rightarrow> bool" where
  "WasNotFound resp \<longleftrightarrow> resp = Some 404"

text \<open>An adapter returns its error (\<open>None\<close> is \<^verbatim>\<open>nil\<close>), the local state and the remote state
  as it leaves them.\<close>

type_synonym 'w outcome = "error option \<times> ResourceData \<times> 'w"

section \<open>Storage table\<close>

text \<open>
  The loop of \<^verbatim>\<open>resourceArmStorageTableCreate\<close> returns at the first table of the response
  whose name is the declared one.
\<close>

fun first_named :: "string \<Rightarrow> Table list \<Rightarrow> Table option" where
  "first_named name [] = None"
| "first_named name (t # ts) = (if Table.Name t = name then Some t else first_named name ts)"

text \<open>
  The loop of \<^verbatim>\<open>resourceArmStorageTableRead\<close>:
  \<^verbatim>\<open>
  var table *storage.Table
  for _, t := range tables.Tables {
      if t.Name == name {
          table = &t
      }
  }
  \<close>
  The range clause declares one variable \<^verbatim>\<open>t\<close> for the whole loop (the semantics of Go
  before 1.22, the language of these sources), and each iteration assigns the next element
  to it. \<^verbatim>\<open>table\<close> is \<^verbatim>\<open>nil\<close> or the address of that variable, so the frame of the loop is
  the store: the cell of \<^verbatim>\<open>t\<close> and the pointer.
\<close>

datatype table_pointer = nil | address_of_t

record range_frame =
  cell_t :: Table
  table :: table_pointer

fun range_Tables :: "string \<Rightarrow> Table list \<Rightarrow> range_frame \<Rightarrow> range_frame" where
  "range_Tables name [] fr = fr"
| "range_Tables name (x # xs) fr =
     (let fr = fr\<lparr>cell_t := x\<rparr>;
          fr = (if Table.Name (cell_t fr) = name then fr\<lparr>table := address_of_t\<rparr> else fr)
      in range_Tables name xs fr)"

definition resourceArmStorageTableRead :: "('w, 'c) TableApi \<Rightarrow> ResourceData \<Rightarrow> 'w \<Rightarrow> 'w outcome" where
  "resourceArmStorageTableRead api d w =
     (let name = Get d ''name'';
          resourceGroupName = Get d ''resource_group_name'';
          storageAccountName = Get d ''storage_account_name''
      in case getTableServiceClientForStorageAccount api w resourceGroupName storageAccountName of
           (tableClient, accountExists, err) \<Rightarrow>
             (case err of
                Some e \<Rightarrow> (Some (Passed e), d, w)
              | None \<Rightarrow>
                  if \<not> accountExists then (None, d\<lparr>Id := ''''\<rparr>, w)
                  else
                    (case QueryTables api w tableClient of
                       Inl e \<Rightarrow>
                         (Some (Errorf ''Failed to retrieve storage tables in account %q: %s'' [name, e]), d, w)
                     | Inr tables \<Rightarrow>
                         (let fr = range_Tables name tables
                                     \<lparr>cell_t = \<lparr>Table.Name = ''''\<rparr>, table = nil\<rparr>
                          in if table fr = nil then (None, d\<lparr>Id := ''''\<rparr>, w)
                             else (None, d\<lparr>Get := (Get d)(''name'' := Table.Name (cell_t fr))\<rparr>, w)))))"

definition resourceArmStorageTableCreate :: "('w, 'c) TableApi \<Rightarrow> ResourceData \<Rightarrow> 'w \<Rightarrow> 'w outcome" where
  "resourceArmStorageTableCreate api d w =
     (let name = Get d ''name'';
          resourceGroupName = Get d ''resource_group_name'';
          storageAccountName = Get d ''storage_account_name''
      in case getTableServiceClientForStorageAccount api w resourceGroupName storageAccountName of
           (tableClient, accountExists, err) \<Rightarrow>
             (case err of
                Some e \<Rightarrow> (Some (Passed e), d, w)
              | None \<Rightarrow>
                  if \<not> accountExists
                  then (Some (Errorf ''Storage Account %q Not Found'' [storageAccountName]), d, w)
                  else
                    (case QueryTables api w tableClient of
                       Inl e \<Rightarrow>
                         (Some (Errorf ''Failed to retrieve storage tables in account %q: %s'' [name, e]), d, w)
                     | Inr tables \<Rightarrow>
                         (case first_named name tables of
                            Some t \<Rightarrow> (Some (ImportAsExistsError ''azurerm_storage_table'' (Table.Name t)), d, w)
                          | None \<Rightarrow>
                              (case Table_Create api (tableClient, name) w of
                                 (Some e, w') \<Rightarrow>
                                   (Some (Errorf ''Error creating table %q in storage account %q: %s''
                                            [name, storageAccountName, e]), d, w')
                               | (None, w') \<Rightarrow>
                                   resourceArmStorageTableRead api (d\<lparr>Id := name\<rparr>) w')))))"

definition resourceArmStorageTableDelete :: "('w, 'c) TableApi \<Rightarrow> ResourceData \<Rightarrow> 'w \<Rightarrow> 'w outcome" where
  "resourceArmStorageTableDelete api d w =
     (let name = Get d ''name'';
          resourceGroupName = Get d ''resource_group_name'';
          storageAccountName = Get d ''storage_account_name''
      in case getTableServiceClientForStorageAccount api w resourceGroupName storageAccountName of
           (tableClient, accountExists, err) \<Rightarrow>
             (case err of
                Some e \<Rightarrow> (Some (Passed e), d, w)
              | None \<Rightarrow>
                  if \<not> accountExists then (None, d, w)
                  else
                    (case Table_Delete api (tableClient, name) w of
                       (Some e, w') \<Rightarrow>
                         (Some (Errorf ''Error deleting storage table %q from storage account %q: %s''
                                  [name, storageAccountName, e]), d, w')
                     | (None, w') \<Rightarrow> (None, d, w'))))"

section \<open>Storage queue\<close>

definition resourceArmStorageQueueExists ::
  "('w, 'c) QueueApi \<Rightarrow> ResourceData \<Rightarrow> 'w \<Rightarrow> (bool \<times> error option) \<times> ResourceData \<times> 'w" where
  "resourceArmStorageQueueExists api d w =
     (let resourceGroupName = Get d ''resource_group_name'';
          storageAccountName = Get d ''storage_account_name''
      in case getQueueServiceClientForStorageAccount api w resourceGroupName storageAccountName of
           (queueClient, accountExists, err) \<Rightarrow>
             (case err of
                Some e \<Rightarrow> ((False, Some (Passed e)), d, w)
              | None \<Rightarrow>
                  if \<not> accountExists then ((False, None), d\<lparr>Id := ''''\<rparr>, w)
                  else
                    (let name = Get d ''name'' in
                     case Queue_Exists api w (queueClient, name) of
                       (exists, Some e) \<Rightarrow>
                         ((False, Some (Errorf ''error testing existence of storage queue %q: %s'' [name, e])), d, w)
                     | (exists, None) \<Rightarrow>
                         (let d = (if \<not> exists then d\<lparr>Id := ''''\<rparr> else d)
                          in ((exists, None), d, w)))))"

definition resourceArmStorageQueueRead :: "('w, 'c) QueueApi \<Rightarrow> ResourceData \<Rightarrow> 'w \<Rightarrow> 'w outcome" where
  "resourceArmStorageQueueRead api d w =
     (case resourceArmStorageQueueExists api d w of
        ((exists, Some e), d', w') \<Rightarrow> (Some e, d', w')
      | ((exists, None), d', w') \<Rightarrow> if \<not> exists then (None, d', w') else (None, d', w'))"

definition resourceArmStorageQueueCreate :: "('w, 'c) QueueApi \<Rightarrow> ResourceData \<Rightarrow> 'w \<Rightarrow> 'w outcome" where
  "resourceArmStorageQueueCreate api d w =
     (let resourceGroupName = Get d ''resource_group_name'';
          storageAccountName = Get d ''storage_account_name''
      in case getQueueServiceClientForStorageAccount api w resourceGroupName storageAccountName of
           (queueClient, accountExists, err) \<Rightarrow>
             (case err of
                Some e \<Rightarrow> (Some (Passed e), d, w)
              | None \<Rightarrow>
                  if \<not> accountExists
                  then (Some (Errorf ''Storage Account %q Not Found'' [storageAccountName]), d, w)
                  else
                    (let name = Get d ''name'' in
                     case Queue_Exists api w (queueClient, name) of
                       (exists, Some e) \<Rightarrow>
                         (Some (Errorf ''Error checking for the existence of queue %q in storage account %q: %+v''
                                  [name, storageAccountName, e]), d, w)
                     | (exists, None) \<Rightarrow>
                         if exists then (Some (ImportAsExistsError ''azurerm_storage_queue'' name), d, w)
                         else
                           (case Queue_Create api (queueClient, name) w of
                              (Some e, w') \<Rightarrow>
                                (Some (Errorf ''Error creating storage queue on Azure: %s'' [e]), d, w')
                            | (None, w') \<Rightarrow>
                                resourceArmStorageQueueRead api (d\<lparr>Id := name\<rparr>) w'))))"

definition resourceArmStorageQueueDelete :: "('w, 'c) QueueApi \<Rightarrow> ResourceData \<Rightarrow> 'w \<Rightarrow> 'w outcome" where
  "resourceArmStorageQueueDelete api d w =
     (let resourceGroupName = Get d ''resource_group_name'';
          storageAccountName = Get d ''storage_account_name''
      in case getQueueServiceClientForStorageAccount api w resourceGroupName storageAccountName of
           (queueClient, accountExists, err) \<Rightarrow>
             (case err of
                Some e \<Rightarrow> (Some (Passed e), d, w)
              | None \<Rightarrow>
                  if \<not> accountExists then (None, d, w)
                  else
                    (let name = Get d ''name'' in
                     case Queue_Delete api (queueClient, name) w of
                       (Some e, w') \<Rightarrow>
                         (Some (Errorf ''Error deleting storage queue %q: %s'' [name, e]), d, w')
                     | (None, w') \<Rightarrow> (None, d, w'))))"

section \<open>Storage container\<close>

subsection \<open>The bounded retry\<close>

text \<open>\<^verbatim>\<open>resource.RetryError\<close>, made by \<^verbatim>\<open>resource.RetryableError(err)\<close> and
  \<^verbatim>\<open>resource.NonRetryableError(err)\<close>.\<close>

datatype RetryError = RetryableError string | NonRetryableError string

text \<open>\<^verbatim>\<open>time.Second\<close>, in nanoseconds.\<close>

definition Second :: nat where
  "Second = 1000000000"

text \<open>\<^verbatim>\<open>rerr.Err\<close>: the error a \<^verbatim>\<open>resource.RetryError\<close> holds.\<close>

fun Err :: "RetryError \<Rightarrow> string" where
  "Err (RetryableError e) = e"
| "Err (NonRetryableError e) = e"

text \<open>
  Modelled from the spec: \<^verbatim>\<open>resource.Retry(timeout, f)\<close> belongs to the host's helper library,
  outside these sources. The spec: it "repeats an idempotent create if not exists call until
  it succeeds or a fixed wall-clock budget elapses; every failure within the budget is treated
  as retryable, anything after the budget is fatal"; "N transient failures then one success
  within the timeout budget" give success, "failures spanning the entire budget" give a
  "fatal error after budget expiry, no further attempts"; and the loop "blocks the calling
  invocation while sleeping between attempts; it does not spawn concurrent attempts".

  Time is the count of nanoseconds since the call of \<^verbatim>\<open>Retry\<close>. An attempt starts only
  while the budget has not elapsed, and ends after the time the call took. An answer that
  comes after the budget is fatal, whatever it is: the run ends with the failure of that
  attempt, or with a timeout error when the late attempt did not fail. An answer within the
  budget ends the run when it is a success or a non-retryable error; after a retryable
  error the loop pauses for at least one nanosecond and goes on. When the budget has elapsed
  at the start of an attempt, the run ends with the last failure as its error. Beside the
  error the run reports the number of attempts it made and the time at which it ended.
\<close>

function Retry_run ::
  "nat \<Rightarrow> ('w \<Rightarrow> (RetryError option \<times> nat) \<times> 'w) \<Rightarrow> nat \<Rightarrow> nat \<Rightarrow> string option \<Rightarrow> 'w
     \<Rightarrow> (string option \<times> nat \<times> nat) \<times> 'w" where
  "Retry_run timeout f elapsed attempts lastErr w =
     (if timeout \<le> elapsed
      then ((Some (case lastErr of None \<Rightarrow> ''timeout'' | Some e \<Rightarrow> e), attempts, elapsed), w)
      else
        (case f w of
           ((r, took), w') \<Rightarrow>
             if timeout < elapsed + took
             then ((Some (case r of None \<Rightarrow> ''timeout'' | Some rerr \<Rightarrow> Err rerr),
                    Suc attempts, elapsed + took), w')
             else
               (case r of
                  None \<Rightarrow> ((None, Suc attempts, elapsed + took), w')
                | Some (NonRetryableError e) \<Rightarrow> ((Some e, Suc attempts, elapsed + took), w')
                | Some (RetryableError e) \<Rightarrow>
                    Retry_run timeout f (elapsed + Suc took) (Suc attempts) (Some e) w')))"
  by pat_completeness auto
termination
  by (relation "measure (\<lambda>(timeout, f, elapsed, attempts, lastErr, w). timeout - elapsed)") auto

declare Retry_run.simps [simp del]

text \<open>
  Modelled from the spec: \<^verbatim>\<open>resource.Retry(timeout, f)\<close> itself returns the error of the run
  described above, which starts at time 0 with no attempt made.
\<close>

definition Retry :: "nat \<Rightarrow> ('w \<Rightarrow> (RetryError option \<times> nat) \<times> 'w) \<Rightarrow> 'w \<Rightarrow> string option \<times> 'w" where
  "Retry timeout f w =
     (case Retry_run timeout f 0 0 None w of ((err, attempts, elapsed), w') \<Rightarrow> (err, w'))"

definition checkContainerIsCreated ::
  "('w, 'c) BlobApi \<Rightarrow> 'c \<times> string \<Rightarrow> 'w \<Rightarrow> (RetryError option \<times> nat) \<times> 'w" where
  "checkContainerIsCreated api reference =
     (\<lambda>w. case Container_CreateIfNotExists api reference w of
             (((created, err), took), w') \<Rightarrow>
               (case err of
                  Some e \<Rightarrow> ((Some (RetryableError e), took), w')
                | None \<Rightarrow> ((None, took), w')))"

subsection \<open>The adapter\<close>

text \<open>
  The loop of \<^verbatim>\<open>resourceArmStorageContainerRead\<close> over the listed containers: every
  container of the declared name sets \<^verbatim>\<open>found\<close> and writes \<^verbatim>\<open>properties\<close>. \<open>props cont\<close> is the
  map \<^verbatim>\<open>props\<close> that the body builds from \<^verbatim>\<open>cont.Properties\<close>.
\<close>

definition props :: "Container \<Rightarrow> string \<rightharpoonup> string" where
  "props cont =
     [''last_modified'' \<mapsto> LastModified (Properties cont),
      ''lease_status'' \<mapsto> LeaseStatus (Properties cont),
      ''lease_state'' \<mapsto> LeaseState (Properties cont),
      ''lease_duration'' \<mapsto> LeaseDuration (Properties cont)]"

fun range_Containers :: "string \<Rightarrow> Container list \<Rightarrow> bool \<times> ResourceData \<Rightarrow> bool \<times> ResourceData" where
  "range_Containers name [] (found, d) = (found, d)"
| "range_Containers name (cont # rest) (found, d) =
     (if Container.Name cont = name
      then range_Containers name rest (True, d\<lparr>properties := props cont\<rparr>)
      else range_Containers name rest (found, d))"

definition resourceArmStorageContainerRead :: "('w, 'c) BlobApi \<Rightarrow> ResourceData \<Rightarrow> 'w \<Rightarrow> 'w outcome" where
  "resourceArmStorageContainerRead api d w =
     (let resourceGroupName = Get d ''resource_group_name'';
          storageAccountName = Get d ''storage_account_name''
      in case getBlobStorageClientForStorageAccount api w resourceGroupName storageAccountName of
           (blobClient, accountExists, err) \<Rightarrow>
             (case err of
                Some e \<Rightarrow> (Some (Passed e), d, w)
              | None \<Rightarrow>
                  if \<not> accountExists then (None, d\<lparr>Id := ''''\<rparr>, w)
                  else
                    (let name = Get d ''name'' in
                     case ListContainers api w blobClient name of
                       Inl e \<Rightarrow>
                         (Some (Errorf ''Failed to retrieve storage containers in account %q: %s'' [name, e]), d, w)
                     | Inr containers \<Rightarrow>
                         (case range_Containers name containers (False, d) of
                            (found, d) \<Rightarrow>
                              if \<not> found then (None, d\<lparr>Id := ''''\<rparr>, w) else (None, d, w)))))"

definition resourceArmStorageContainerExists ::
  "('w, 'c) BlobApi \<Rightarrow> ResourceData \<Rightarrow> 'w \<Rightarrow> (bool \<times> error option) \<times> ResourceData \<times> 'w" where
  "resourceArmStorageContainerExists api d w =
     (let resourceGroupName = Get d ''resource_group_name'';
          storageAccountName = Get d ''storage_account_name''
      in case getBlobStorageClientForStorageAccount api w resourceGroupName storageAccountName of
           (blobClient, accountExists, err) \<Rightarrow>
             (case err of
                Some e \<Rightarrow> ((False, Some (Passed e)), d, w)
              | None \<Rightarrow>
                  if \<not> accountExists then ((False, None), d\<lparr>Id := ''''\<rparr>, w)
                  else
                    (let name = Get d ''name'' in
                     case Container_Exists api w (blobClient, name) of
                       (exists, Some e) \<Rightarrow>
                         ((False,
                           Some (Errorf ''Error querying existence of storage container %q in storage account %q: %s''
                                   [name, storageAccountName, e])), d, w)
                     | (exists, None) \<Rightarrow>
                         (let d = (if \<not> exists then d\<lparr>Id := ''''\<rparr> else d)
                          in ((exists, None), d, w)))))"

definition resourceArmStorageContainerCreate :: "('w, 'c) BlobApi \<Rightarrow> ResourceData \<Rightarrow> 'w \<Rightarrow> 'w outcome" where
  "resourceArmStorageContainerCreate api d w =
     (let resourceGroupName = Get d ''resource_group_name'';
          storageAccountName = Get d ''storage_account_name''
      in case getBlobStorageClientForStorageAccount api w resourceGroupName storageAccountName of
           (blobClient, accountExists, err) \<Rightarrow>
             (case err of
                Some e \<Rightarrow> (Some (Passed e), d, w)
              | None \<Rightarrow>
                  if \<not> accountExists
                  then (Some (Errorf ''Storage Account %q Not Found'' [storageAccountName]), d, w)
                  else
                    (let name = Get d ''name'';
                         accessType = (if Get d ''container_access_type'' = ''private''
                                       then ''''
                                       else Get d ''container_access_type'');
                         reference = (blobClient, name)
                     in case Container_Exists api w reference of
                          (exists, Some e) \<Rightarrow>
                            (Some (Errorf ''Error checking if container %q exists in storage account %q: %+v''
                                     [name, storageAccountName, e]), d, w)
                        | (exists, None) \<Rightarrow>
                            if exists then (Some (ImportAsExistsError ''azurerm_storage_container'' name), d, w)
                            else
                              (case Retry (120 * Second) (checkContainerIsCreated api reference) w of
                                 (Some e, w') \<Rightarrow>
                                   (Some (Errorf ''Error creating container %q in storage account %q: %s''
                                            [name, storageAccountName, e]), d, w')
                               | (None, w') \<Rightarrow>
                                   (case Container_SetPermissions api reference accessType w' of
                                      (Some e, w'') \<Rightarrow>
                                        (Some (Errorf ''Error setting permissions for container %s in storage account %s: %+v''
                                                 [name, storageAccountName, e]), d, w'')
                                    | (None, w'') \<Rightarrow>
                                        resourceArmStorageContainerRead api (d\<lparr>Id := name\<rparr>) w'')))))"

definition resourceArmStorageContainerDelete :: "('w, 'c) BlobApi \<Rightarrow> ResourceData \<Rightarrow> 'w \<Rightarrow> 'w outcome" where
  "resourceArmStorageContainerDelete api d w =
     (let resourceGroupName = Get d ''resource_group_name'';
          storageAccountName = Get d ''storage_account_name''
      in case getBlobStorageClientForStorageAccount api w resourceGroupName storageAccountName of
           (blobClient, accountExists, err) \<Rightarrow>
             (case err of
                Some e \<Rightarrow> (Some (Passed e), d, w)
              | None \<Rightarrow>
                  if \<not> accountExists then (None, d, w)
                  else
                    (let name = Get d ''name'';
                         reference = (blobClient, name)
                     in case Container_DeleteIfExists api reference w of
                          ((deleted, Some e), w') \<Rightarrow>
                            (Some (Errorf ''Error deleting storage container %q from storage account %q: %s''
                                     [name, storageAccountName, e]), d, w')
                        | ((deleted, None), w') \<Rightarrow> (None, d, w'))))"

section \<open>Data Lake Store file\<close>

text \<open>
  \<^verbatim>\<open>resourceArmDataLakeStoreFileCreate\<close> has its check for an existing file inside a comment
  (\<^verbatim>\<open>TODO: Requiring import support once the ID's have been sorted\<close>): the function goes from
  reading its arguments to opening the local file. The create request is sent with
  \<^verbatim>\<open>overwrite = utils.Bool(false)\<close>.
\<close>

definition resourceArmDataLakeStoreFileRead :: "('w, 'f) FileApi \<Rightarrow> ResourceData \<Rightarrow> 'w \<Rightarrow> 'w outcome" where
  "resourceArmDataLakeStoreFileRead api d w =
     (let accountName = Get d ''account_name'';
          remoteFilePath = Id d
      in case GetFileStatus api w accountName remoteFilePath of
           (resp, Some e) \<Rightarrow>
             if ResponseWasNotFound resp then (None, d\<lparr>Id := ''''\<rparr>, w)
             else (Some (Errorf ''Error making Read request on Azure Data Lake Store File %q (Account %q): %+v''
                           [remoteFilePath, accountName, e]), d, w)
         | (resp, None) \<Rightarrow> (None, d, w))"

definition resourceArmDataLakeStoreFileCreate :: "('w, 'f) FileApi \<Rightarrow> ResourceData \<Rightarrow> 'w \<Rightarrow> 'w outcome" where
  "resourceArmDataLakeStoreFileCreate api d w =
     (let accountName = Get d ''account_name'';
          remoteFilePath = Get d ''remote_file_path'';
          localFilePath = Get d ''local_file_path''
      in case os_Open api w localFilePath of
           Inl e \<Rightarrow> (Some (Errorf ''error opening file %q: %+v'' [localFilePath, e]), d, w)
         | Inr file \<Rightarrow>
             (case ioutil_ReadAll api w file of
                Inl e \<Rightarrow> (Some (Passed e), d, w)
              | Inr fileContents \<Rightarrow>
                  (case Files_Create api accountName remoteFilePath fileContents False w of
                     (Some e, w') \<Rightarrow>
                       (Some (Errorf ''Error issuing create request for Data Lake Store File %q : %+v''
                                [remoteFilePath, e]), d, w')
                   | (None, w') \<Rightarrow>
                       resourceArmDataLakeStoreFileRead api (d\<lparr>Id := remoteFilePath\<rparr>) w')))"

definition resourceArmDataLakeStoreFileDelete :: "('w, 'f) FileApi \<Rightarrow> ResourceData \<Rightarrow> 'w \<Rightarrow> 'w outcome" where
  "resourceArmDataLakeStoreFileDelete api d w =
     (let accountName = Get d ''account_name'';
          remoteFilePath = Id d
      in case Files_Delete api accountName remoteFilePath False w of
           ((resp, Some e), w') \<Rightarrow>
             if WasNotFound resp then (None, d, w')
             else (Some (Errorf ''Error issuing delete request for Data Lake Store File %q (Account %q): %+v''
                           [remoteFilePath, accountName, e]), d, w')
         | ((resp, None), w') \<Rightarrow> (None, d, w'))"

section \<open>Simulated remote sides\<close>

text \<open>
  Small in-memory remote sides, on which the adapters can be run: a storage state lists,
  for every storage account that exists, the names of its objects in listing order. The
  client for an account is the account's name. Creating an object that exists and deleting
  one that is missing fail, as the storage services answer them (409 and 404).
\<close>

type_synonym sim = "(string \<times> string list) list"

definition sim_names :: "sim \<Rightarrow> string \<Rightarrow> string list" where
  "sim_names w a = (case map_of w a of None \<Rightarrow> [] | Some ns \<Rightarrow> ns)"

definition sim_put :: "sim \<Rightarrow> string \<Rightarrow> string list \<Rightarrow> sim" where
  "sim_put w a ns = map (\<lambda>(a', ns'). if a' = a then (a', ns) else (a', ns')) w"

definition sim_resolve :: "sim \<Rightarrow> string \<Rightarrow> string \<Rightarrow> string \<times> bool \<times> string option" where
  "sim_resolve w resourceGroupName a = (a, map_of w a \<noteq> None, None)"

definition sim_create :: "string \<Rightarrow> string \<times> string \<Rightarrow> sim \<Rightarrow> string option \<times> sim" where
  "sim_create conflict = (\<lambda>(a, n) w.
     if n \<in> set (sim_names w a) then (Some conflict, w)
     else (None, sim_put w a (sim_names w a @ [n])))"

definition sim_delete :: "string \<Rightarrow> string \<times> string \<Rightarrow> sim \<Rightarrow> string option \<times> sim" where
  "sim_delete missing = (\<lambda>(a, n) w.
     if n \<in> set (sim_names w a) then (None, sim_put w a (removeAll n (sim_names w a)))
     else (Some missing, w))"

definition sim_tables :: "(sim, string) TableApi" where
  "sim_tables =
     \<lparr>getTableServiceClientForStorageAccount = sim_resolve,
      QueryTables = (\<lambda>w a. Inr (map (\<lambda>n. \<lparr>Table.Name = n\<rparr>) (sim_names w a))),
      Table_Create = sim_create ''409 TableAlreadyExists'',
      Table_Delete = sim_delete ''404 ResourceNotFound''\<rparr>"

definition sim_queues :: "(sim, string) QueueApi" where
  "sim_queues =
     \<lparr>getQueueServiceClientForStorageAccount = sim_resolve,
      Queue_Exists = (\<lambda>w (a, n). (n \<in> set (sim_names w a), None)),
      Queue_Create = sim_create ''409 QueueAlreadyExists'',
      Queue_Delete = sim_delete ''404 QueueNotFound''\<rparr>"

text \<open>
  The blob side also counts the calls of \<^verbatim>\<open>CreateIfNotExists\<close> that will still fail because
  the account is not routable yet; every such call takes \<open>took\<close> nanoseconds.
\<close>

definition sim_container :: "string \<Rightarrow> Container" where
  "sim_container n =
     \<lparr>Container.Name = n,
      Properties = \<lparr>LastModified = ''Mon, 01 Jan 2018 00:00:00 GMT'', LeaseStatus = ''unlocked'',
                    LeaseState = ''available'', LeaseDuration = ''''\<rparr>\<rparr>"

definition sim_blobs :: "nat \<Rightarrow> (sim \<times> nat, string) BlobApi" where
  "sim_blobs took =
     \<lparr>getBlobStorageClientForStorageAccount = (\<lambda>(w, failing). sim_resolve w),
      Container_Exists = (\<lambda>(w, failing) (a, n). (n \<in> set (sim_names w a), None)),
      Container_CreateIfNotExists = (\<lambda>(a, n) (w, failing).
        case failing of
          Suc k \<Rightarrow> (((False, Some ''503 ServerBusy''), took), (w, k))
        | 0 \<Rightarrow>
            if n \<in> set (sim_names w a) then (((False, None), took), (w, 0))
            else (((True, None), took), (sim_put w a (sim_names w a @ [n]), 0))),
      Container_SetPermissions = (\<lambda>(a, n) accessType (w, failing).
        if n \<in> set (sim_names w a) then (None, (w, failing))
        else (Some ''404 ContainerNotFound'', (w, failing))),
      ListContainers = (\<lambda>(w, failing) a prefix.
        Inr (map sim_container (filter (\<lambda>n. take (length prefix) n = prefix) (sim_names w a)))),
      Container_DeleteIfExists = (\<lambda>(a, n) (w, failing).
        if n \<in> set (sim_names w a)
        then ((True, None), (sim_put w a (removeAll n (sim_names w a)), failing))
        else ((False, None), (w, failing)))\<rparr>"

text \<open>
  The file side: the local files (path and contents) and the remote files (account and path,
  with the contents). A create request without \<^verbatim>\<open>overwrite\<close> for a file that exists is
  refused.
\<close>

type_synonym sim_files = "(string \<times> string) list \<times> ((string \<times> string) \<times> string) list"

definition sim_file_api :: "(sim_files, string) FileApi" where
  "sim_file_api =
     \<lparr>os_Open = (\<lambda>(local, remote) path.
        if map_of local path = None then Inl ''no such file or directory'' else Inr path),
      ioutil_ReadAll = (\<lambda>(local, remote) file.
        case map_of local file of None \<Rightarrow> Inl ''file already closed'' | Some contents \<Rightarrow> Inr contents),
      Files_Create = (\<lambda>account path contents overwrite (local, remote).
        if map_of remote (account, path) \<noteq> None \<and> \<not> overwrite
        then (Some ''403 FileAlreadyExistsException'', (local, remote))
        else (None, (local, ((account, path), contents) # remote))),
      GetFileStatus = (\<lambda>(local, remote) account path.
        if map_of remote (account, path) = None then (Some 404, Some ''404 FileNotFoundException'')
        else (Some 200, None)),
      Files_Delete = (\<lambda>account path recursive (local, remote).
        if map_of remote (account, path) = None
        then ((Some 404, Some ''404 FileNotFoundException''), (local, remote))
        else ((Some 200, None), (local, filter (\<lambda>(k, v). k \<noteq> (account, path)) remote)))\<rparr>"

text \<open>Declarations for the witnesses: the string fields of a resource, from a list.\<close>

definition declared :: "(string \<times> string) list \<Rightarrow> ResourceData" where
  "declared kvs =
     \<lparr>Id = '''', Get = (\<lambda>k. case map_of kvs k of None \<Rightarrow> '''' | Some v \<Rightarrow> v), properties = Map.empty\<rparr>"

text \<open>The resources of the witnesses: a table, queue or container \<open>tab1\<close> of the storage
  account \<open>acct\<close>, and a file \<open>/a/b\<close> of the store \<open>lake\<close> with the local file \<open>/tmp/x\<close>.\<close>

definition example_resource :: ResourceData where
  "example_resource =
     declared [(''name'', ''tab1''), (''resource_group_name'', ''rg''), (''storage_account_name'', ''acct''),
               (''container_access_type'', ''private'')]"

definition example_file :: ResourceData where
  "example_file =
     declared [(''account_name'', ''lake''), (''remote_file_path'', ''/a/b''), (''local_file_path'', ''/tmp/x'')]"

section \<open>The rules of the validators\<close>

text \<open>
  The spec speaks of the rules of a validator ("each returns the full list of violated
  rules"). The tables below list, for every validator, its rules in the order of the source:
  whether the name violates the rule, and the message of the rule. They are what the
  validators are compared with; the validators themselves are the definitions above.
\<close>

definition table_rules :: "string \<Rightarrow> string \<Rightarrow> (bool \<times> error) list" where
  "table_rules v k =
     [(v = ''table'',
       Errorf ''Table Storage %q cannot use the word `table`: %q'' [k, v]),
      (\<not> matches_table_name v,
       Errorf ''Table Storage %q cannot begin with a numeric character, only alphanumeric characters are allowed and must be between 3 and 63 characters long: %q'' [k, v])]"

definition queue_rules :: "string \<Rightarrow> string \<Rightarrow> (bool \<times> error) list" where
  "queue_rules v k =
     [(\<not> matches_lower_alnum_hyphen v,
       Errorf ''only lowercase alphanumeric characters and hyphens allowed in %q'' [k]),
      (matches_leading_hyphen v, Errorf ''%q cannot start with a hyphen'' [k]),
      (matches_trailing_hyphen v, Errorf ''%q cannot end with a hyphen'' [k]),
      (length v > 63, Errorf ''%q cannot be longer than 63 characters'' [k]),
      (length v < 3, Errorf ''%q must be at least 3 characters'' [k])]"

definition container_rules :: "string \<Rightarrow> string \<Rightarrow> (bool \<times> error) list" where
  "container_rules v k =
     [(\<not> matches_container_name v,
       Errorf ''only lowercase alphanumeric characters and hyphens allowed in %q: %q'' [k, v]),
      (length v < 3 \<or> length v > 63, Errorf ''%q must be between 3 and 63 characters: %q'' [k, v]),
      (matches_leading_hyphen v, Errorf ''%q cannot begin with a hyphen: %q'' [k, v])]"

text \<open>The messages of the rules a name violates, in order.\<close>

definition violated :: "(bool \<times> error) list \<Rightarrow> error list" where
  "violated rules = map snd (filter fst rules)"

section \<open>Notions for stating the claims on the adapters\<close>

text \<open>
  The clock and the remote state after \<open>k\<close> attempts of a retried function, each followed
  by its pause: where the attempt number \<open>k\<close> (counting from 0) starts.
\<close>

fun after_attempts ::
  "('w \<Rightarrow> (RetryError option \<times> nat) \<times> 'w) \<Rightarrow> nat \<Rightarrow> nat \<times> 'w \<Rightarrow> nat \<times> 'w" where
  "after_attempts f 0 s = s"
| "after_attempts f (Suc k) (elapsed, w) =
     (case f w of ((r, took), w') \<Rightarrow> after_attempts f k (elapsed + Suc took, w'))"

text \<open>
  Attempt number \<open>k\<close> succeeds within the budget: it starts before the budget has elapsed,
  it ends no later than the budget, and its answer is success.
\<close>

definition succeeds_within ::
  "nat \<Rightarrow> ('w \<Rightarrow> (RetryError option \<times> nat) \<times> 'w) \<Rightarrow> nat \<times> 'w \<Rightarrow> nat \<Rightarrow> bool" where
  "succeeds_within timeout f s k \<longleftrightarrow>
     (case after_attempts f k s of
        (start, w) \<Rightarrow>
          (case f w of
             ((r, took), w') \<Rightarrow> start < timeout \<and> start + took \<le> timeout \<and> r = None))"

text \<open>
  The remote side shows the declared object: the account resolves, and the query the Read
  of the resource kind makes reports the declared name (for the file: the status request for
  the declared path returns no error).
\<close>

definition table_present :: "('w, 'c) TableApi \<Rightarrow> ResourceData \<Rightarrow> 'w \<Rightarrow> bool" where
  "table_present api d w \<longleftrightarrow>
     (case getTableServiceClientForStorageAccount api w (Get d ''resource_group_name'')
             (Get d ''storage_account_name'') of
        (c, accountExists, err) \<Rightarrow>
          accountExists \<and> err = None \<and>
          (case QueryTables api w c of
             Inl e \<Rightarrow> False
           | Inr ts \<Rightarrow> Get d ''name'' \<in> Table.Name ` set ts))"

definition queue_present :: "('w, 'c) QueueApi \<Rightarrow> ResourceData \<Rightarrow> 'w \<Rightarrow> bool" where
  "queue_present api d w \<longleftrightarrow>
     (case getQueueServiceClientForStorageAccount api w (Get d ''resource_group_name'')
             (Get d ''storage_account_name'') of
        (c, accountExists, err) \<Rightarrow>
          accountExists \<and> err = None \<and> Queue_Exists api w (c, Get d ''name'') = (True, None))"

definition container_listed :: "('w, 'c) BlobApi \<Rightarrow> 'w \<Rightarrow> 'c \<Rightarrow> string \<Rightarrow> bool" where
  "container_listed api w c n \<longleftrightarrow>
     (case ListContainers api w c n of
        Inl e \<Rightarrow> False
      | Inr cs \<Rightarrow> n \<in> Container.Name ` set cs)"

definition container_present :: "('w, 'c) BlobApi \<Rightarrow> ResourceData \<Rightarrow> 'w \<Rightarrow> bool" where
  "container_present api d w \<longleftrightarrow>
     (case getBlobStorageClientForStorageAccount api w (Get d ''resource_group_name'')
             (Get d ''storage_account_name'') of
        (c, accountExists, err) \<Rightarrow>
          accountExists \<and> err = None \<and> container_listed api w c (Get d ''name''))"

definition file_present :: "('w, 'f) FileApi \<Rightarrow> ResourceData \<Rightarrow> 'w \<Rightarrow> bool" where
  "file_present api d w \<longleftrightarrow>
     snd (GetFileStatus api w (Get d ''account_name'') (Get d ''remote_file_path'')) = None"

text \<open>
  The remote side lets a client read what it has written. For a storage account that
  resolves, a create call leaves the account resolving to the same client, and after a
  successful create the object is there for the queries: the table is listed, the queue
  exists, the container is listed (a call of \<^verbatim>\<open>CreateIfNotExists\<close> that fails still leaves the
  account resolving, and setting the permissions of a listed container leaves it listed); a
  file created is there for the status request.
\<close>

definition table_reads_its_writes :: "('w, 'c) TableApi \<Rightarrow> bool" where
  "table_reads_its_writes api \<longleftrightarrow>
     (\<forall>w rg a c n w'.
        getTableServiceClientForStorageAccount api w rg a = (c, True, None) \<and>
        Table_Create api (c, n) w = (None, w')
        \<longrightarrow> getTableServiceClientForStorageAccount api w' rg a = (c, True, None) \<and>
            (\<exists>ts. QueryTables api w' c = Inr ts \<and> n \<in> Table.Name ` set ts))"

definition queue_reads_its_writes :: "('w, 'c) QueueApi \<Rightarrow> bool" where
  "queue_reads_its_writes api \<longleftrightarrow>
     (\<forall>w rg a c n w'.
        getQueueServiceClientForStorageAccount api w rg a = (c, True, None) \<and>
        Queue_Create api (c, n) w = (None, w')
        \<longrightarrow> getQueueServiceClientForStorageAccount api w' rg a = (c, True, None) \<and>
            Queue_Exists api w' (c, n) = (True, None))"

definition blob_reads_its_writes :: "('w, 'c) BlobApi \<Rightarrow> bool" where
  "blob_reads_its_writes api \<longleftrightarrow>
     (\<forall>w rg a c n created err took w'.
        getBlobStorageClientForStorageAccount api w rg a = (c, True, None) \<and>
        Container_CreateIfNotExists api (c, n) w = (((created, err), took), w')
        \<longrightarrow> getBlobStorageClientForStorageAccount api w' rg a = (c, True, None) \<and>
            (err = None \<longrightarrow> container_listed api w' c n))
     \<and> (\<forall>w rg a c n accessType w'.
        getBlobStorageClientForStorageAccount api w rg a = (c, True, None) \<and>
        container_listed api w c n \<and>
        Container_SetPermissions api (c, n) accessType w = (None, w')
        \<longrightarrow> getBlobStorageClientForStorageAccount api w' rg a = (c, True, None) \<and>
            container_listed api w' c n)"

definition file_reads_its_writes :: "('w, 'f) FileApi \<Rightarrow> bool" where
  "file_reads_its_writes api \<longleftrightarrow>
     (\<forall>w account path contents w'.
        Files_Create api account path contents False w = (None, w')
        \<longrightarrow> snd (GetFileStatus api w' account path) = None)"

section \<open>Properties of the validators\<close>

lemma table_errors_are_violated_rules:
  "snd (validateArmStorageTableName v k) = violated (table_rules v k)"
  by (simp add: validateArmStorageTableName_def table_rules_def violated_def Let_def)

lemma queue_errors_are_violated_rules:
  "snd (validateArmStorageQueueName v k) = violated (queue_rules v k)"
  by (simp add: validateArmStorageQueueName_def queue_rules_def violated_def Let_def)

lemma container_errors_are_violated_rules:
  "snd (validateArmStorageContainerName v k) = violated (container_rules v k)"
  by (simp add: validateArmStorageContainerName_def container_rules_def violated_def Let_def)

lemma violated_single:
  "filter fst rules = [(True, m)] \<Longrightarrow> violated rules = [m]"
  by (simp add: violated_def)

lemma Ab_not_lowercase: "\<not> matches_lower_alnum_hyphen ''Ab''"
  by (simp add: matches_lower_alnum_hyphen_def lower_def digit_def)

lemma queue_Ab:
  "snd (validateArmStorageQueueName ''Ab'' k) =
     [Errorf ''only lowercase alphanumeric characters and hyphens allowed in %q'' [k],
      Errorf ''%q must be at least 3 characters'' [k]]"
  by (simp add: validateArmStorageQueueName_def Let_def Ab_not_lowercase
      matches_leading_hyphen_def matches_trailing_hyphen_def)

lemma container_Ab:
  "snd (validateArmStorageContainerName ''Ab'' k) =
     [Errorf ''only lowercase alphanumeric characters and hyphens allowed in %q: %q'' [k, ''Ab''],
      Errorf ''%q must be between 3 and 63 characters: %q'' [k, ''Ab'']]"
  by (simp add: validateArmStorageContainerName_def Let_def Ab_not_lowercase
      matches_container_name_def matches_leading_hyphen_def)

lemma table_Ab:
  "snd (validateArmStorageTableName ''Ab'' k) =
     [Errorf ''Table Storage %q cannot begin with a numeric character, only alphanumeric characters are allowed and must be between 3 and 63 characters long: %q'' [k, ''Ab'']]"
  by (simp add: validateArmStorageTableName_def Let_def matches_table_name_def)

lemma queue_leading_hyphen:
  "snd (validateArmStorageQueueName ''-abc'' k) = [Errorf ''%q cannot start with a hyphen'' [k]]"
  by (simp add: validateArmStorageQueueName_def Let_def matches_lower_alnum_hyphen_def
      lower_def digit_def matches_leading_hyphen_def matches_trailing_hyphen_def)

lemma queue_trailing_hyphen:
  "snd (validateArmStorageQueueName ''abc-'' k) = [Errorf ''%q cannot end with a hyphen'' [k]]"
  by (simp add: validateArmStorageQueueName_def Let_def matches_lower_alnum_hyphen_def
      lower_def digit_def matches_leading_hyphen_def matches_trailing_hyphen_def)

text \<open>
  Claim C4, as the spec has it: a name that violates exactly one rule gets exactly that
  rule's message, and \<open>''Ab''\<close> gets only a length error, no charset error. It fails at
  \<open>''Ab''\<close>: the capital letter is outside the lowercase class, so the queue validator and the
  container validator each report the charset rule before the length rule.
\<close>

theorem C4_Ab_counterexample:
  "snd (validateArmStorageQueueName ''Ab'' ''name'') \<noteq> [Errorf ''%q must be at least 3 characters'' [''name'']]
   \<and> Errorf ''only lowercase alphanumeric characters and hyphens allowed in %q'' [''name'']
       \<in> set (snd (validateArmStorageQueueName ''Ab'' ''name''))
   \<and> Errorf ''only lowercase alphanumeric characters and hyphens allowed in %q: %q'' [''name'', ''Ab'']
       \<in> set (snd (validateArmStorageContainerName ''Ab'' ''name''))"
  by (simp add: queue_Ab container_Ab)

text \<open>
  Claim C4, amended: for each of the three validators, a name that violates exactly one rule
  of the validator gets exactly that rule's message and no other. The queue name \<open>''-abc''\<close>
  gets only the leading-hyphen message and \<open>''abc-''\<close> only the trailing-hyphen message. The
  name \<open>''Ab''\<close> violates two rules of the queue validator and of the container validator,
  and gets the charset message followed by the length message from each; the table validator
  answers it with its one combined message.
\<close>

theorem C4_single_rule_single_message:
  "(\<forall>m. filter fst (table_rules v k) = [(True, m)] \<longrightarrow> snd (validateArmStorageTableName v k) = [m])
   \<and> (\<forall>m. filter fst (queue_rules v k) = [(True, m)] \<longrightarrow> snd (validateArmStorageQueueName v k) = [m])
   \<and> (\<forall>m. filter fst (container_rules v k) = [(True, m)] \<longrightarrow> snd (validateArmStorageContainerName v k) = [m])
   \<and> snd (validateArmStorageQueueName ''-abc'' k) = [Errorf ''%q cannot start with a hyphen'' [k]]
   \<and> snd (validateArmStorageQueueName ''abc-'' k) = [Errorf ''%q cannot end with a hyphen'' [k]]
   \<and> snd (validateArmStorageQueueName ''Ab'' k) =
        [Errorf ''only lowercase alphanumeric characters and hyphens allowed in %q'' [k],
         Errorf ''%q must be at least 3 characters'' [k]]
   \<and> snd (validateArmStorageContainerName ''Ab'' k) =
        [Errorf ''only lowercase alphanumeric characters and hyphens allowed in %q: %q'' [k, ''Ab''],
         Errorf ''%q must be between 3 and 63 characters: %q'' [k, ''Ab'']]
   \<and> snd (validateArmStorageTableName ''Ab'' k) =
        [Errorf ''Table Storage %q cannot begin with a numeric character, only alphanumeric characters are allowed and must be between 3 and 63 characters long: %q'' [k, ''Ab'']]"
proof -
  have t: "\<forall>m. filter fst (table_rules v k) = [(True, m)] \<longrightarrow> snd (validateArmStorageTableName v k) = [m]"
    by (simp add: table_errors_are_violated_rules violated_single)
  have q: "\<forall>m. filter fst (queue_rules v k) = [(True, m)] \<longrightarrow> snd (validateArmStorageQueueName v k) = [m]"
    by (simp add: queue_errors_are_violated_rules violated_single)
  have c: "\<forall>m. filter fst (container_rules v k) = [(True, m)] \<longrightarrow> snd (validateArmStorageContainerName v k) = [m]"
    by (simp add: container_errors_are_violated_rules violated_single)
  show ?thesis
    by (intro conjI t q c queue_leading_hyphen queue_trailing_hyphen queue_Ab container_Ab table_Ab)
qed

text \<open>
  Witness for C4: one name for each validator that violates exactly one of its rules: the
  word \<open>''table''\<close> (well-formed, but forbidden), the two-character queue name \<open>''ab''\<close> and
  the container name \<open>''My-Container''\<close>.
\<close>

theorem C4_single_rule_witness:
  "filter fst (table_rules ''table'' ''name'') =
     [(True, Errorf ''Table Storage %q cannot use the word `table`: %q'' [''name'', ''table''])]
   \<and> snd (validateArmStorageTableName ''table'' ''name'') =
     [Errorf ''Table Storage %q cannot use the word `table`: %q'' [''name'', ''table'']]
   \<and> filter fst (queue_rules ''ab'' ''name'') = [(True, Errorf ''%q must be at least 3 characters'' [''name''])]
   \<and> snd (validateArmStorageQueueName ''ab'' ''name'') = [Errorf ''%q must be at least 3 characters'' [''name'']]
   \<and> filter fst (container_rules ''My-Container'' ''name'') =
     [(True, Errorf ''only lowercase alphanumeric characters and hyphens allowed in %q: %q'' [''name'', ''My-Container''])]
   \<and> snd (validateArmStorageContainerName ''My-Container'' ''name'') =
     [Errorf ''only lowercase alphanumeric characters and hyphens allowed in %q: %q'' [''name'', ''My-Container'']]"
proof -
  have t: "filter fst (table_rules ''table'' ''name'') =
     [(True, Errorf ''Table Storage %q cannot use the word `table`: %q'' [''name'', ''table''])]"
    by (simp add: table_rules_def matches_table_name_def lower_def upper_def digit_def)
  have q: "filter fst (queue_rules ''ab'' ''name'') = [(True, Errorf ''%q must be at least 3 characters'' [''name''])]"
    by (simp add: queue_rules_def matches_lower_alnum_hyphen_def lower_def digit_def
        matches_leading_hyphen_def matches_trailing_hyphen_def)
  have c: "filter fst (container_rules ''My-Container'' ''name'') =
     [(True, Errorf ''only lowercase alphanumeric characters and hyphens allowed in %q: %q'' [''name'', ''My-Container''])]"
    by (simp add: container_rules_def matches_container_name_def matches_lower_alnum_hyphen_def
        lower_def digit_def matches_leading_hyphen_def)
  have t': "snd (validateArmStorageTableName ''table'' ''name'') =
     [Errorf ''Table Storage %q cannot use the word `table`: %q'' [''name'', ''table'']]"
    using t C4_single_rule_single_message [of "''table''" "''name''"] by simp
  have q': "snd (validateArmStorageQueueName ''ab'' ''name'') = [Errorf ''%q must be at least 3 characters'' [''name'']]"
    using q C4_single_rule_single_message [of "''ab''" "''name''"] by simp
  have c': "snd (validateArmStorageContainerName ''My-Container'' ''name'') =
     [Errorf ''only lowercase alphanumeric characters and hyphens allowed in %q: %q'' [''name'', ''My-Container'']]"
    using c C4_single_rule_single_message [of "''My-Container''" "''name''"] by simp
  show ?thesis
    by (intro conjI t t' q q' c c')
qed

text \<open>
  Claim C10: the container validator accepts the literal name \<open>''$root''\<close> with an empty error
  list, although \<open>$\<close> is outside the class of lowercase letters, digits and hyphens; for every
  other name the charset message is reported exactly when the name is not a non-empty word
  over that class.
\<close>

theorem C10_root_exempt_from_charset:
  "snd (validateArmStorageContainerName ''$root'' k) = []
   \<and> \<not> matches_lower_alnum_hyphen ''$root''
   \<and> (\<forall>v. v \<noteq> ''$root'' \<longrightarrow>
         (Errorf ''only lowercase alphanumeric characters and hyphens allowed in %q: %q'' [k, v]
            \<in> set (snd (validateArmStorageContainerName v k))
          \<longleftrightarrow> \<not> matches_lower_alnum_hyphen v))"
proof -
  have root: "snd (validateArmStorageContainerName ''$root'' k) = []"
    by (simp add: validateArmStorageContainerName_def Let_def matches_container_name_def
        matches_leading_hyphen_def)
  have dollar: "\<not> matches_lower_alnum_hyphen ''$root''"
    by (simp add: matches_lower_alnum_hyphen_def lower_def digit_def)
  have others: "Errorf ''only lowercase alphanumeric characters and hyphens allowed in %q: %q'' [k, v]
            \<in> set (snd (validateArmStorageContainerName v k))
          \<longleftrightarrow> \<not> matches_lower_alnum_hyphen v" if "v \<noteq> ''$root''" for v
    using that
    by (simp add: validateArmStorageContainerName_def Let_def matches_container_name_def)
  show ?thesis
    by (intro conjI allI impI root dollar others)
qed

text \<open>Witness for C10: \<open>''My-Container''\<close> is not \<open>''$root''\<close>, and its capitals bring the
  charset message.\<close>

theorem C10_root_exempt_witness:
  "''My-Container'' \<noteq> ''$root''
   \<and> \<not> matches_lower_alnum_hyphen ''My-Container''
   \<and> Errorf ''only lowercase alphanumeric characters and hyphens allowed in %q: %q'' [''name'', ''My-Container'']
        \<in> set (snd (validateArmStorageContainerName ''My-Container'' ''name''))"
proof -
  have ne: "''My-Container'' \<noteq> ''$root''"
    by simp
  have cs: "\<not> matches_lower_alnum_hyphen ''My-Container''"
    by (simp add: matches_lower_alnum_hyphen_def lower_def digit_def)
  have "Errorf ''only lowercase alphanumeric characters and hyphens allowed in %q: %q'' [''name'', ''My-Container'']
        \<in> set (snd (validateArmStorageContainerName ''My-Container'' ''name''))"
    using ne cs C10_root_exempt_from_charset [of "''name''"] by simp
  then show ?thesis
    by (intro conjI ne cs)
qed

section \<open>Properties of the table adapter\<close>

lemma range_Tables_cell:
  "ts \<noteq> [] \<Longrightarrow> cell_t (range_Tables name ts fr) = last ts"
proof (induction ts arbitrary: fr)
  case Nil
  then show ?case by simp
next
  case (Cons x xs)
  show ?case
  proof (cases xs)
    case Nil
    then show ?thesis by (simp add: Let_def)
  next
    case (Cons y ys)
    with Cons.IH show ?thesis by (simp add: Let_def)
  qed
qed

lemma range_Tables_table:
  "table (range_Tables name ts fr) =
     (if name \<in> Table.Name ` set ts then address_of_t else table fr)"
  by (induction ts arbitrary: fr) (auto simp: Let_def)

lemma first_named_present:
  "name \<in> Table.Name ` set ts \<Longrightarrow> \<exists>t. first_named name ts = Some t \<and> Table.Name t = name"
  by (induction ts) auto

lemma table_read_account_missing:
  assumes "getTableServiceClientForStorageAccount api w (Get d ''resource_group_name'')
             (Get d ''storage_account_name'') = (c, False, None)"
  shows "resourceArmStorageTableRead api d w = (None, d\<lparr>Id := ''''\<rparr>, w)"
  using assms by (simp add: resourceArmStorageTableRead_def Let_def)


lemma table_read_present:
  assumes "getTableServiceClientForStorageAccount api w (Get d ''resource_group_name'')
             (Get d ''storage_account_name'') = (c, True, None)"
    and "QueryTables api w c = Inr ts"
    and "Get d ''name'' \<in> Table.Name ` set ts"
  shows "resourceArmStorageTableRead api d w =
           (None, d\<lparr>Get := (Get d)(''name'' := Table.Name (last ts))\<rparr>, w)"
proof -
  from assms(3) have "ts \<noteq> []" by auto
  then have "cell_t (range_Tables (Get d ''name'') ts fr) = last ts" for fr
    by (rule range_Tables_cell)
  with assms show ?thesis
    by (simp add: resourceArmStorageTableRead_def Let_def range_Tables_table)
qed

lemma table_create_account_missing:
  assumes "getTableServiceClientForStorageAccount api w (Get d ''resource_group_name'')
             (Get d ''storage_account_name'') = (c, False, None)"
  shows "resourceArmStorageTableCreate api d w =
           (Some (Errorf ''Storage Account %q Not Found'' [Get d ''storage_account_name'']), d, w)"
  using assms by (simp add: resourceArmStorageTableCreate_def Let_def)

lemma table_create_exists:
  assumes "getTableServiceClientForStorageAccount api w (Get d ''resource_group_name'')
             (Get d ''storage_account_name'') = (c, True, None)"
    and "QueryTables api w c = Inr ts"
    and "Get d ''name'' \<in> Table.Name ` set ts"
  shows "resourceArmStorageTableCreate api d w =
           (Some (ImportAsExistsError ''azurerm_storage_table'' (Get d ''name'')), d, w)"
proof -
  from assms(3) obtain t where "first_named (Get d ''name'') ts = Some t" "Table.Name t = Get d ''name''"
    using first_named_present by blast
  with assms show ?thesis
    by (simp add: resourceArmStorageTableCreate_def Let_def)
qed

lemma table_delete_account_missing:
  assumes "getTableServiceClientForStorageAccount api w (Get d ''resource_group_name'')
             (Get d ''storage_account_name'') = (c, False, None)"
  shows "resourceArmStorageTableDelete api d w = (None, d, w)"
  using assms by (simp add: resourceArmStorageTableDelete_def Let_def)

lemma table_delete_passes_failure_on:
  assumes "getTableServiceClientForStorageAccount api w (Get d ''resource_group_name'')
             (Get d ''storage_account_name'') = (c, True, None)"
    and "Table_Delete api (c, Get d ''name'') w = (Some e, w')"
  shows "resourceArmStorageTableDelete api d w =
           (Some (Errorf ''Error deleting storage table %q from storage account %q: %s''
                    [Get d ''name'', Get d ''storage_account_name'', e]), d, w')"
  using assms by (simp add: resourceArmStorageTableDelete_def Let_def)

text \<open>
  Claim C9: in \<^verbatim>\<open>resourceArmStorageTableRead\<close>, whenever a table of the query response has the
  declared name, the \<^verbatim>\<open>name\<close> written back to the local state is the name of the last table
  of the response (the pointer kept by the loop is the address of the loop variable), so it
  is the declared name only when the last table of the response is a matching one.
\<close>

theorem C9_table_read_writes_last_name:
  assumes "getTableServiceClientForStorageAccount api w (Get d ''resource_group_name'')
             (Get d ''storage_account_name'') = (c, True, None)"
    and "QueryTables api w c = Inr ts"
    and "Get d ''name'' \<in> Table.Name ` set ts"
  shows "resourceArmStorageTableRead api d w =
           (None, d\<lparr>Get := (Get d)(''name'' := Table.Name (last ts))\<rparr>, w)
         \<and> (Get (fst (snd (resourceArmStorageTableRead api d w))) ''name'' = Get d ''name''
              \<longleftrightarrow> Table.Name (last ts) = Get d ''name'')"
proof -
  have r: "resourceArmStorageTableRead api d w =
           (None, d\<lparr>Get := (Get d)(''name'' := Table.Name (last ts))\<rparr>, w)"
    using assms by (rule table_read_present)
  then show ?thesis by simp
qed

text \<open>
  Witness for C9: the account lists the tables \<open>tab1\<close> and \<open>tab2\<close>, the resource declares \<open>tab1\<close>;
  after the read the local \<^verbatim>\<open>name\<close> is \<open>tab2\<close>.
\<close>

theorem C9_table_read_witness:
  "Get (fst (snd (resourceArmStorageTableRead sim_tables
         (declared [(''name'', ''tab1''), (''resource_group_name'', ''rg''), (''storage_account_name'', ''acct'')])
         [(''acct'', [''tab1'', ''tab2''])]))) ''name'' = ''tab2''"
proof -
  let ?d = "declared [(''name'', ''tab1''), (''resource_group_name'', ''rg''), (''storage_account_name'', ''acct'')]"
  let ?w = "[(''acct'', [''tab1'', ''tab2''])]"
  have r: "getTableServiceClientForStorageAccount sim_tables ?w (Get ?d ''resource_group_name'')
             (Get ?d ''storage_account_name'') = (''acct'', True, None)"
    by (simp add: sim_tables_def sim_resolve_def declared_def)
  have q: "QueryTables sim_tables ?w ''acct'' = Inr [\<lparr>Table.Name = ''tab1''\<rparr>, \<lparr>Table.Name = ''tab2''\<rparr>]"
    by (simp add: sim_tables_def sim_names_def)
  have m: "Get ?d ''name'' \<in> Table.Name ` set [\<lparr>Table.Name = ''tab1''\<rparr>, \<lparr>Table.Name = ''tab2''\<rparr>]"
    by (simp add: declared_def)
  from C9_table_read_writes_last_name [OF r q m] show ?thesis
    by simp
qed

section \<open>Properties of the queue adapter\<close>

lemma queue_exists_account_missing:
  assumes "getQueueServiceClientForStorageAccount api w (Get d ''resource_group_name'')
             (Get d ''storage_account_name'') = (c, False, None)"
  shows "resourceArmStorageQueueExists api d w = ((False, None), d\<lparr>Id := ''''\<rparr>, w)"
  using assms by (simp add: resourceArmStorageQueueExists_def Let_def)

lemma queue_exists_answer:
  assumes "getQueueServiceClientForStorageAccount api w (Get d ''resource_group_name'')
             (Get d ''storage_account_name'') = (c, True, None)"
    and "Queue_Exists api w (c, Get d ''name'') = (b, None)"
  shows "resourceArmStorageQueueExists api d w = ((b, None), (if b then d else d\<lparr>Id := ''''\<rparr>), w)"
  using assms by (simp add: resourceArmStorageQueueExists_def Let_def)

lemma queue_read_account_missing:
  assumes "getQueueServiceClientForStorageAccount api w (Get d ''resource_group_name'')
             (Get d ''storage_account_name'') = (c, False, None)"
  shows "resourceArmStorageQueueRead api d w = (None, d\<lparr>Id := ''''\<rparr>, w)"
  using queue_exists_account_missing [OF assms] by (simp add: resourceArmStorageQueueRead_def)

lemma queue_read_answer:
  assumes "getQueueServiceClientForStorageAccount api w (Get d ''resource_group_name'')
             (Get d ''storage_account_name'') = (c, True, None)"
    and "Queue_Exists api w (c, Get d ''name'') = (b, None)"
  shows "resourceArmStorageQueueRead api d w = (None, (if b then d else d\<lparr>Id := ''''\<rparr>), w)"
  using queue_exists_answer [OF assms] by (simp add: resourceArmStorageQueueRead_def)

lemma queue_create_account_missing:
  assumes "getQueueServiceClientForStorageAccount api w (Get d ''resource_group_name'')
             (Get d ''storage_account_name'') = (c, False, None)"
  shows "resourceArmStorageQueueCreate api d w =
           (Some (Errorf ''Storage Account %q Not Found'' [Get d ''storage_account_name'']), d, w)"
  using assms by (simp add: resourceArmStorageQueueCreate_def Let_def)

lemma queue_create_exists:
  assumes "getQueueServiceClientForStorageAccount api w (Get d ''resource_group_name'')
             (Get d ''storage_account_name'') = (c, True, None)"
    and "Queue_Exists api w (c, Get d ''name'') = (True, None)"
  shows "resourceArmStorageQueueCreate api d w =
           (Some (ImportAsExistsError ''azurerm_storage_queue'' (Get d ''name'')), d, w)"
  using assms by (simp add: resourceArmStorageQueueCreate_def Let_def)

lemma queue_delete_account_missing:
  assumes "getQueueServiceClientForStorageAccount api w (Get d ''resource_group_name'')
             (Get d ''storage_account_name'') = (c, False, None)"
  shows "resourceArmStorageQueueDelete api d w = (None, d, w)"
  using assms by (simp add: resourceArmStorageQueueDelete_def Let_def)

lemma queue_delete_passes_failure_on:
  assumes "getQueueServiceClientForStorageAccount api w (Get d ''resource_group_name'')
             (Get d ''storage_account_name'') = (c, True, None)"
    and "Queue_Delete api (c, Get d ''name'') w = (Some e, w')"
  shows "resourceArmStorageQueueDelete api d w =
           (Some (Errorf ''Error deleting storage queue %q: %s'' [Get d ''name'', e]), d, w')"
  using assms by (simp add: resourceArmStorageQueueDelete_def Let_def)

section \<open>Properties of the container adapter\<close>

lemma range_Containers_absent:
  "name \<notin> Container.Name ` set cs \<Longrightarrow> range_Containers name cs (found, d) = (found, d)"
  by (induction cs arbitrary: found d) auto

lemma container_read_account_missing:
  assumes "getBlobStorageClientForStorageAccount api w (Get d ''resource_group_name'')
             (Get d ''storage_account_name'') = (c, False, None)"
  shows "resourceArmStorageContainerRead api d w = (None, d\<lparr>Id := ''''\<rparr>, w)"
  using assms by (simp add: resourceArmStorageContainerRead_def Let_def)


lemma container_exists_account_missing:
  assumes "getBlobStorageClientForStorageAccount api w (Get d ''resource_group_name'')
             (Get d ''storage_account_name'') = (c, False, None)"
  shows "resourceArmStorageContainerExists api d w = ((False, None), d\<lparr>Id := ''''\<rparr>, w)"
  using assms by (simp add: resourceArmStorageContainerExists_def Let_def)

lemma container_exists_answer:
  assumes "getBlobStorageClientForStorageAccount api w (Get d ''resource_group_name'')
             (Get d ''storage_account_name'') = (c, True, None)"
    and "Container_Exists api w (c, Get d ''name'') = (b, None)"
  shows "resourceArmStorageContainerExists api d w = ((b, None), (if b then d else d\<lparr>Id := ''''\<rparr>), w)"
  using assms by (simp add: resourceArmStorageContainerExists_def Let_def)

lemma container_create_account_missing:
  assumes "getBlobStorageClientForStorageAccount api w (Get d ''resource_group_name'')
             (Get d ''storage_account_name'') = (c, False, None)"
  shows "resourceArmStorageContainerCreate api d w =
           (Some (Errorf ''Storage Account %q Not Found'' [Get d ''storage_account_name'']), d, w)"
  using assms by (simp add: resourceArmStorageContainerCreate_def Let_def)

lemma container_create_exists:
  assumes "getBlobStorageClientForStorageAccount api w (Get d ''resource_group_name'')
             (Get d ''storage_account_name'') = (c, True, None)"
    and "Container_Exists api w (c, Get d ''name'') = (True, None)"
  shows "resourceArmStorageContainerCreate api d w =
           (Some (ImportAsExistsError ''azurerm_storage_container'' (Get d ''name'')), d, w)"
  using assms by (simp add: resourceArmStorageContainerCreate_def Let_def)

lemma container_delete_account_missing:
  assumes "getBlobStorageClientForStorageAccount api w (Get d ''resource_group_name'')
             (Get d ''storage_account_name'') = (c, False, None)"
  shows "resourceArmStorageContainerDelete api d w = (None, d, w)"
  using assms by (simp add: resourceArmStorageContainerDelete_def Let_def)

lemma container_delete_if_exists:
  assumes "getBlobStorageClientForStorageAccount api w (Get d ''resource_group_name'')
             (Get d ''storage_account_name'') = (c, True, None)"
    and "Container_DeleteIfExists api (c, Get d ''name'') w = ((deleted, None), w')"
  shows "resourceArmStorageContainerDelete api d w = (None, d, w')"
  using assms by (simp add: resourceArmStorageContainerDelete_def Let_def)

section \<open>Properties of the file adapter\<close>


lemma file_read_present:
  assumes "GetFileStatus api w (Get d ''account_name'') (Id d) = (resp, None)"
  shows "resourceArmDataLakeStoreFileRead api d w = (None, d, w)"
  using assms by (simp add: resourceArmDataLakeStoreFileRead_def Let_def)

lemma file_read_never_import_signal:
  "fst (resourceArmDataLakeStoreFileRead api d w) \<noteq> Some (ImportAsExistsError r i)"
  by (simp add: resourceArmDataLakeStoreFileRead_def Let_def split: prod.splits option.splits)

lemma file_create_never_import_signal:
  "fst (resourceArmDataLakeStoreFileCreate api d w) \<noteq> Some (ImportAsExistsError r i)"
  by (simp add: resourceArmDataLakeStoreFileCreate_def Let_def file_read_never_import_signal
      split: prod.splits option.splits sum.splits)

lemma file_create_refused:
  assumes "os_Open api w (Get d ''local_file_path'') = Inr file"
    and "ioutil_ReadAll api w file = Inr fileContents"
    and "Files_Create api (Get d ''account_name'') (Get d ''remote_file_path'') fileContents False w = (Some e, w')"
  shows "resourceArmDataLakeStoreFileCreate api d w =
           (Some (Errorf ''Error issuing create request for Data Lake Store File %q : %+v''
                    [Get d ''remote_file_path'', e]), d, w')"
  using assms by (simp add: resourceArmDataLakeStoreFileCreate_def Let_def)

lemma file_delete_not_found:
  assumes "Files_Delete api (Get d ''account_name'') (Id d) False w = ((resp, Some e), w')"
    and "WasNotFound resp"
  shows "resourceArmDataLakeStoreFileDelete api d w = (None, d, w')"
  using assms by (simp add: resourceArmDataLakeStoreFileDelete_def Let_def)

section \<open>The adapters on the simulated remote sides\<close>

lemma example_resource_fields:
  "Get example_resource ''name'' = ''tab1''"
  "Get example_resource ''resource_group_name'' = ''rg''"
  "Get example_resource ''storage_account_name'' = ''acct''"
  "Get example_resource ''container_access_type'' = ''private''"
  "Id example_resource = ''''"
  by (simp_all add: example_resource_def declared_def)

lemma example_file_fields:
  "Get example_file ''account_name'' = ''lake''"
  "Get example_file ''remote_file_path'' = ''/a/b''"
  "Get example_file ''local_file_path'' = ''/tmp/x''"
  "Id example_file = ''''"
  by (simp_all add: example_file_def declared_def)

lemma sim_resolve_found: "sim_resolve [(''acct'', ns)] ''rg'' ''acct'' = (''acct'', True, None)"
  by (simp add: sim_resolve_def)

lemma sim_resolve_missing: "sim_resolve [] ''rg'' ''acct'' = (''acct'', False, None)"
  by (simp add: sim_resolve_def)

lemma sim_names_acct: "sim_names [(''acct'', ns)] ''acct'' = ns"
  by (simp add: sim_names_def)

lemma sim_put_acct: "sim_put [(''acct'', ns)] ''acct'' ns' = [(''acct'', ns')]"
  by (simp add: sim_put_def)

section \<open>The claims on the four operations\<close>

text \<open>
  Claim C1, as the spec has it: for every resource kind, the file resource among them, Create
  on an existing remote object returns \<open>ImportAsExistsError\<close> and does not go on to create.
  It fails for the file resource: the store \<open>lake\<close> holds \<open>/a/b\<close>, and Create sends the create
  request all the same and returns the refusal of the request as an ordinary error.
\<close>

theorem C1_file_create_counterexample:
  "GetFileStatus sim_file_api ([(''/tmp/x'', ''hello'')], [((''lake'', ''/a/b''), ''old'')]) ''lake'' ''/a/b''
     = (Some 200, None)
   \<and> resourceArmDataLakeStoreFileCreate sim_file_api example_file
       ([(''/tmp/x'', ''hello'')], [((''lake'', ''/a/b''), ''old'')])
     = (Some (Errorf ''Error issuing create request for Data Lake Store File %q : %+v''
                [''/a/b'', ''403 FileAlreadyExistsException'']),
        example_file, ([(''/tmp/x'', ''hello'')], [((''lake'', ''/a/b''), ''old'')]))"
  by (simp add: resourceArmDataLakeStoreFileCreate_def Let_def sim_file_api_def example_file_fields)

text \<open>
  Claim C1, amended: for the storage table, the storage queue and the storage container,
  Create on a remote object that already exists (the account resolves and the existence
  query reports the declared name) returns \<open>ImportAsExistsError\<close> for that name and leaves
  the local and the remote state as they were. The file resource makes no existence check:
  it never returns \<open>ImportAsExistsError\<close>; it sends the create request without
  \<^verbatim>\<open>overwrite\<close>, and a refusal of that request is returned as an ordinary create error, the
  local state unchanged.
\<close>

theorem C1_create_on_existing:
  "(getTableServiceClientForStorageAccount apiT wT (Get d ''resource_group_name'')
        (Get d ''storage_account_name'') = (cT, True, None)
      \<and> QueryTables apiT wT cT = Inr ts \<and> Get d ''name'' \<in> Table.Name ` set ts
    \<longrightarrow> resourceArmStorageTableCreate apiT d wT =
          (Some (ImportAsExistsError ''azurerm_storage_table'' (Get d ''name'')), d, wT))
   \<and> (getQueueServiceClientForStorageAccount apiQ wQ (Get d ''resource_group_name'')
        (Get d ''storage_account_name'') = (cQ, True, None)
      \<and> Queue_Exists apiQ wQ (cQ, Get d ''name'') = (True, None)
    \<longrightarrow> resourceArmStorageQueueCreate apiQ d wQ =
          (Some (ImportAsExistsError ''azurerm_storage_queue'' (Get d ''name'')), d, wQ))
   \<and> (getBlobStorageClientForStorageAccount apiB wB (Get d ''resource_group_name'')
        (Get d ''storage_account_name'') = (cB, True, None)
      \<and> Container_Exists apiB wB (cB, Get d ''name'') = (True, None)
    \<longrightarrow> resourceArmStorageContainerCreate apiB d wB =
          (Some (ImportAsExistsError ''azurerm_storage_container'' (Get d ''name'')), d, wB))
   \<and> (\<forall>r i. fst (resourceArmDataLakeStoreFileCreate apiF d wF) \<noteq> Some (ImportAsExistsError r i))
   \<and> (os_Open apiF wF (Get d ''local_file_path'') = Inr opened
      \<and> ioutil_ReadAll apiF wF opened = Inr fileContents
      \<and> Files_Create apiF (Get d ''account_name'') (Get d ''remote_file_path'') fileContents False wF
          = (Some e, wF')
    \<longrightarrow> resourceArmDataLakeStoreFileCreate apiF d wF =
          (Some (Errorf ''Error issuing create request for Data Lake Store File %q : %+v''
                   [Get d ''remote_file_path'', e]), d, wF'))"
proof (intro conjI allI)
  show "getTableServiceClientForStorageAccount apiT wT (Get d ''resource_group_name'')
        (Get d ''storage_account_name'') = (cT, True, None)
      \<and> QueryTables apiT wT cT = Inr ts \<and> Get d ''name'' \<in> Table.Name ` set ts
    \<longrightarrow> resourceArmStorageTableCreate apiT d wT =
          (Some (ImportAsExistsError ''azurerm_storage_table'' (Get d ''name'')), d, wT)"
    by (intro impI, elim conjE, rule table_create_exists)
next
  show "getQueueServiceClientForStorageAccount apiQ wQ (Get d ''resource_group_name'')
        (Get d ''storage_account_name'') = (cQ, True, None)
      \<and> Queue_Exists apiQ wQ (cQ, Get d ''name'') = (True, None)
    \<longrightarrow> resourceArmStorageQueueCreate apiQ d wQ =
          (Some (ImportAsExistsError ''azurerm_storage_queue'' (Get d ''name'')), d, wQ)"
    by (intro impI, elim conjE, rule queue_create_exists)
next
  show "getBlobStorageClientForStorageAccount apiB wB (Get d ''resource_group_name'')
        (Get d ''storage_account_name'') = (cB, True, None)
      \<and> Container_Exists apiB wB (cB, Get d ''name'') = (True, None)
    \<longrightarrow> resourceArmStorageContainerCreate apiB d wB =
          (Some (ImportAsExistsError ''azurerm_storage_container'' (Get d ''name'')), d, wB)"
    by (intro impI, elim conjE, rule container_create_exists)
next
  fix r i
  show "fst (resourceArmDataLakeStoreFileCreate apiF d wF) \<noteq> Some (ImportAsExistsError r i)"
    by (rule file_create_never_import_signal)
next
  show "os_Open apiF wF (Get d ''local_file_path'') = Inr opened
      \<and> ioutil_ReadAll apiF wF opened = Inr fileContents
      \<and> Files_Create apiF (Get d ''account_name'') (Get d ''remote_file_path'') fileContents False wF
          = (Some e, wF')
    \<longrightarrow> resourceArmDataLakeStoreFileCreate apiF d wF =
          (Some (Errorf ''Error issuing create request for Data Lake Store File %q : %+v''
                   [Get d ''remote_file_path'', e]), d, wF')"
    by (intro impI, elim conjE, rule file_create_refused)
qed

text \<open>
  Witness for C1: \<open>tab1\<close> exists as a table, as a queue and as a container of \<open>acct\<close>, and the
  store \<open>lake\<close> holds \<open>/a/b\<close>.
\<close>

theorem C1_create_on_existing_witness:
  "resourceArmStorageTableCreate sim_tables example_resource [(''acct'', [''tab0'', ''tab1''])] =
     (Some (ImportAsExistsError ''azurerm_storage_table'' ''tab1''), example_resource, [(''acct'', [''tab0'', ''tab1''])])
   \<and> resourceArmStorageQueueCreate sim_queues example_resource [(''acct'', [''tab0'', ''tab1''])] =
     (Some (ImportAsExistsError ''azurerm_storage_queue'' ''tab1''), example_resource, [(''acct'', [''tab0'', ''tab1''])])
   \<and> resourceArmStorageContainerCreate (sim_blobs Second) example_resource ([(''acct'', [''tab0'', ''tab1''])], 0) =
     (Some (ImportAsExistsError ''azurerm_storage_container'' ''tab1''), example_resource,
      ([(''acct'', [''tab0'', ''tab1''])], 0))
   \<and> resourceArmDataLakeStoreFileCreate sim_file_api example_file
       ([(''/tmp/x'', ''hello'')], [((''lake'', ''/a/b''), ''old'')]) =
     (Some (Errorf ''Error issuing create request for Data Lake Store File %q : %+v''
              [''/a/b'', ''403 FileAlreadyExistsException'']),
      example_file, ([(''/tmp/x'', ''hello'')], [((''lake'', ''/a/b''), ''old'')]))"
proof -
  let ?w = "[(''acct'', [''tab0'', ''tab1''])]"
  let ?f = "([(''/tmp/x'', ''hello'')], [((''lake'', ''/a/b''), ''old'')])"
  have rT: "getTableServiceClientForStorageAccount sim_tables ?w (Get example_resource ''resource_group_name'')
              (Get example_resource ''storage_account_name'') = (''acct'', True, None)"
    by (simp add: sim_tables_def example_resource_fields sim_resolve_found)
  have qT: "QueryTables sim_tables ?w ''acct'' = Inr [\<lparr>Table.Name = ''tab0''\<rparr>, \<lparr>Table.Name = ''tab1''\<rparr>]"
    by (simp add: sim_tables_def sim_names_acct)
  have mT: "Get example_resource ''name'' \<in> Table.Name ` set [\<lparr>Table.Name = ''tab0''\<rparr>, \<lparr>Table.Name = ''tab1''\<rparr>]"
    by (simp add: example_resource_fields)
  have rQ: "getQueueServiceClientForStorageAccount sim_queues ?w (Get example_resource ''resource_group_name'')
              (Get example_resource ''storage_account_name'') = (''acct'', True, None)"
    by (simp add: sim_queues_def example_resource_fields sim_resolve_found)
  have eQ: "Queue_Exists sim_queues ?w (''acct'', Get example_resource ''name'') = (True, None)"
    by (simp add: sim_queues_def example_resource_fields sim_names_acct)
  have rB: "getBlobStorageClientForStorageAccount (sim_blobs Second) (?w, 0) (Get example_resource ''resource_group_name'')
              (Get example_resource ''storage_account_name'') = (''acct'', True, None)"
    by (simp add: sim_blobs_def example_resource_fields sim_resolve_found)
  have eB: "Container_Exists (sim_blobs Second) (?w, 0) (''acct'', Get example_resource ''name'') = (True, None)"
    by (simp add: sim_blobs_def example_resource_fields sim_names_acct)
  have oF: "os_Open sim_file_api ?f (Get example_file ''local_file_path'') = Inr ''/tmp/x''"
    by (simp add: sim_file_api_def example_file_fields)
  have aF: "ioutil_ReadAll sim_file_api ?f ''/tmp/x'' = Inr ''hello''"
    by (simp add: sim_file_api_def)
  have cF: "Files_Create sim_file_api (Get example_file ''account_name'') (Get example_file ''remote_file_path'')
              ''hello'' False ?f = (Some ''403 FileAlreadyExistsException'', ?f)"
    by (simp add: sim_file_api_def example_file_fields)
  note storage = C1_create_on_existing
    [where apiT = sim_tables and wT = ?w and d = example_resource and cT = "''acct''"
       and ts = "[\<lparr>Table.Name = ''tab0''\<rparr>, \<lparr>Table.Name = ''tab1''\<rparr>]"
       and apiQ = sim_queues and wQ = ?w and cQ = "''acct''"
       and apiB = "sim_blobs Second" and wB = "(?w, 0)" and cB = "''acct''"]
  note lake = C1_create_on_existing
    [where apiF = sim_file_api and wF = ?f and d = example_file and opened = "''/tmp/x''"
       and fileContents = "''hello''" and e = "''403 FileAlreadyExistsException''" and wF' = ?f]
  have t: "resourceArmStorageTableCreate sim_tables example_resource ?w =
     (Some (ImportAsExistsError ''azurerm_storage_table'' ''tab1''), example_resource, ?w)"
    using rT qT mT storage [THEN conjunct1] by (simp add: example_resource_fields)
  have q: "resourceArmStorageQueueCreate sim_queues example_resource ?w =
     (Some (ImportAsExistsError ''azurerm_storage_queue'' ''tab1''), example_resource, ?w)"
    using rQ eQ storage [THEN conjunct2, THEN conjunct1] by (simp add: example_resource_fields)
  have b: "resourceArmStorageContainerCreate (sim_blobs Second) example_resource (?w, 0) =
     (Some (ImportAsExistsError ''azurerm_storage_container'' ''tab1''), example_resource, (?w, 0))"
    using rB eB storage [THEN conjunct2, THEN conjunct2, THEN conjunct1] by (simp add: example_resource_fields)
  have f: "resourceArmDataLakeStoreFileCreate sim_file_api example_file ?f =
     (Some (Errorf ''Error issuing create request for Data Lake Store File %q : %+v''
              [''/a/b'', ''403 FileAlreadyExistsException'']), example_file, ?f)"
    using oF aF cF lake [THEN conjunct2, THEN conjunct2, THEN conjunct2, THEN conjunct2] by (simp add: example_file_fields)
  show ?thesis
    by (intro conjI t q b f)
qed

text \<open>
  Claim C2 says that Delete succeeds for every resource kind when the remote object is already
  absent. The table adapter and the queue adapter hand every failure of the SDK's delete call
  on, a missing object included. The name \<open>tab1\<close> passes the validator of the table and of
  the queue schema, the local state holds the identifier \<open>tab1\<close>, the account \<open>acct\<close>
  exists and holds only \<open>tab0\<close>; the storage service answers the delete request with 404,
  and Delete returns an error. (The container adapter calls \<^verbatim>\<open>DeleteIfExists\<close> and the file
  adapter tests the response for "not found"; see \<open>container_delete_if_exists\<close> and
  \<open>file_delete_not_found\<close>.)
\<close>

theorem C2_delete_of_missing_object_fails:
  "validateArmStorageTableName ''tab1'' ''name'' = ([], [])
   \<and> validateArmStorageQueueName ''tab1'' ''name'' = ([], [])
   \<and> Id (example_resource\<lparr>Id := ''tab1''\<rparr>) = ''tab1''
   \<and> getTableServiceClientForStorageAccount sim_tables [(''acct'', [''tab0''])] ''rg'' ''acct''
       = (''acct'', True, None)
   \<and> QueryTables sim_tables [(''acct'', [''tab0''])] ''acct'' = Inr [\<lparr>Table.Name = ''tab0''\<rparr>]
   \<and> Queue_Exists sim_queues [(''acct'', [''tab0''])] (''acct'', ''tab1'') = (False, None)
   \<and> resourceArmStorageTableDelete sim_tables (example_resource\<lparr>Id := ''tab1''\<rparr>) [(''acct'', [''tab0''])] =
     (Some (Errorf ''Error deleting storage table %q from storage account %q: %s''
              [''tab1'', ''acct'', ''404 ResourceNotFound'']),
      example_resource\<lparr>Id := ''tab1''\<rparr>, [(''acct'', [''tab0''])])
   \<and> resourceArmStorageQueueDelete sim_queues (example_resource\<lparr>Id := ''tab1''\<rparr>) [(''acct'', [''tab0''])] =
     (Some (Errorf ''Error deleting storage queue %q: %s'' [''tab1'', ''404 QueueNotFound'']),
      example_resource\<lparr>Id := ''tab1''\<rparr>, [(''acct'', [''tab0''])])"
proof -
  let ?w = "[(''acct'', [''tab0''])]"
  let ?d = "example_resource\<lparr>Id := ''tab1''\<rparr>"
  have vT: "validateArmStorageTableName ''tab1'' ''name'' = ([], [])"
    by (simp add: validateArmStorageTableName_def Let_def matches_table_name_def lower_def upper_def digit_def)
  have vQ: "validateArmStorageQueueName ''tab1'' ''name'' = ([], [])"
    by (simp add: validateArmStorageQueueName_def Let_def matches_lower_alnum_hyphen_def lower_def digit_def
        matches_leading_hyphen_def matches_trailing_hyphen_def)
  have held: "Id ?d = ''tab1''"
    by simp
  have rT: "getTableServiceClientForStorageAccount sim_tables ?w (Get ?d ''resource_group_name'')
              (Get ?d ''storage_account_name'') = (''acct'', True, None)"
    by (simp add: sim_tables_def example_resource_fields sim_resolve_found)
  have dT: "Table_Delete sim_tables (''acct'', Get ?d ''name'') ?w = (Some ''404 ResourceNotFound'', ?w)"
    by (simp add: sim_tables_def sim_delete_def example_resource_fields sim_names_acct)
  have rQ: "getQueueServiceClientForStorageAccount sim_queues ?w (Get ?d ''resource_group_name'')
              (Get ?d ''storage_account_name'') = (''acct'', True, None)"
    by (simp add: sim_queues_def example_resource_fields sim_resolve_found)
  have dQ: "Queue_Delete sim_queues (''acct'', Get ?d ''name'') ?w = (Some ''404 QueueNotFound'', ?w)"
    by (simp add: sim_queues_def sim_delete_def example_resource_fields sim_names_acct)
  have t: "resourceArmStorageTableDelete sim_tables ?d ?w =
     (Some (Errorf ''Error deleting storage table %q from storage account %q: %s''
              [''tab1'', ''acct'', ''404 ResourceNotFound'']), ?d, ?w)"
    using table_delete_passes_failure_on [OF rT dT] by (simp add: example_resource_fields)
  have q: "resourceArmStorageQueueDelete sim_queues ?d ?w =
     (Some (Errorf ''Error deleting storage queue %q: %s'' [''tab1'', ''404 QueueNotFound'']), ?d, ?w)"
    using queue_delete_passes_failure_on [OF rQ dQ] by (simp add: example_resource_fields)
  have resolves: "getTableServiceClientForStorageAccount sim_tables ?w ''rg'' ''acct'' = (''acct'', True, None)"
    by (simp add: sim_tables_def sim_resolve_found)
  have listed: "QueryTables sim_tables ?w ''acct'' = Inr [\<lparr>Table.Name = ''tab0''\<rparr>]"
    by (simp add: sim_tables_def sim_names_acct)
  have missing: "Queue_Exists sim_queues ?w (''acct'', ''tab1'') = (False, None)"
    by (simp add: sim_queues_def sim_names_acct)
  show ?thesis
    by (intro conjI vT vQ held resolves listed missing t q)
qed

text \<open>
  Claim C3, as the spec has it: in every operation, Create among them, an absent account
  (\<^verbatim>\<open>accountExists = false\<close>) is "nothing to do" and the operation succeeds. It fails for
  Create: with no account \<open>acct\<close>, Create of a table returns an error.
\<close>

theorem C3_create_counterexample:
  "getTableServiceClientForStorageAccount sim_tables [] ''rg'' ''acct'' = (''acct'', False, None)
   \<and> resourceArmStorageTableCreate sim_tables example_resource [] =
       (Some (Errorf ''Storage Account %q Not Found'' [''acct'']), example_resource, [])"
proof -
  have r: "getTableServiceClientForStorageAccount sim_tables [] (Get example_resource ''resource_group_name'')
              (Get example_resource ''storage_account_name'') = (''acct'', False, None)"
    by (simp add: sim_tables_def example_resource_fields sim_resolve_missing)
  show ?thesis
    using r table_create_account_missing [OF r] by (simp add: example_resource_fields)
qed

text \<open>
  Claim C3, amended: when the client resolver returns \<^verbatim>\<open>accountExists = false\<close> and no error,
  Read and Exists clear the local identifier and return success (Exists answers false), and
  Delete returns success with the local state as it was, each without a further call on the
  remote side; Create instead fails with the error "Storage Account ... Not Found", the local
  and the remote state unchanged. This holds for the table, the queue and the container
  adapter (the file adapter resolves no account).
\<close>

theorem C3_account_missing:
  "(getTableServiceClientForStorageAccount apiT wT (Get d ''resource_group_name'')
        (Get d ''storage_account_name'') = (cT, False, None)
    \<longrightarrow> resourceArmStorageTableRead apiT d wT = (None, d\<lparr>Id := ''''\<rparr>, wT)
        \<and> resourceArmStorageTableDelete apiT d wT = (None, d, wT)
        \<and> resourceArmStorageTableCreate apiT d wT =
            (Some (Errorf ''Storage Account %q Not Found'' [Get d ''storage_account_name'']), d, wT))
   \<and> (getQueueServiceClientForStorageAccount apiQ wQ (Get d ''resource_group_name'')
        (Get d ''storage_account_name'') = (cQ, False, None)
    \<longrightarrow> resourceArmStorageQueueRead apiQ d wQ = (None, d\<lparr>Id := ''''\<rparr>, wQ)
        \<and> resourceArmStorageQueueExists apiQ d wQ = ((False, None), d\<lparr>Id := ''''\<rparr>, wQ)
        \<and> resourceArmStorageQueueDelete apiQ d wQ = (None, d, wQ)
        \<and> resourceArmStorageQueueCreate apiQ d wQ =
            (Some (Errorf ''Storage Account %q Not Found'' [Get d ''storage_account_name'']), d, wQ))
   \<and> (getBlobStorageClientForStorageAccount apiB wB (Get d ''resource_group_name'')
        (Get d ''storage_account_name'') = (cB, False, None)
    \<longrightarrow> resourceArmStorageContainerRead apiB d wB = (None, d\<lparr>Id := ''''\<rparr>, wB)
        \<and> resourceArmStorageContainerExists apiB d wB = ((False, None), d\<lparr>Id := ''''\<rparr>, wB)
        \<and> resourceArmStorageContainerDelete apiB d wB = (None, d, wB)
        \<and> resourceArmStorageContainerCreate apiB d wB =
            (Some (Errorf ''Storage Account %q Not Found'' [Get d ''storage_account_name'']), d, wB))"
proof (intro conjI impI)
  assume r: "getTableServiceClientForStorageAccount apiT wT (Get d ''resource_group_name'')
        (Get d ''storage_account_name'') = (cT, False, None)"
  show "resourceArmStorageTableRead apiT d wT = (None, d\<lparr>Id := ''''\<rparr>, wT)"
    using r by (rule table_read_account_missing)
  show "resourceArmStorageTableDelete apiT d wT = (None, d, wT)"
    using r by (rule table_delete_account_missing)
  show "resourceArmStorageTableCreate apiT d wT =
            (Some (Errorf ''Storage Account %q Not Found'' [Get d ''storage_account_name'']), d, wT)"
    using r by (rule table_create_account_missing)
next
  assume r: "getQueueServiceClientForStorageAccount apiQ wQ (Get d ''resource_group_name'')
        (Get d ''storage_account_name'') = (cQ, False, None)"
  show "resourceArmStorageQueueRead apiQ d wQ = (None, d\<lparr>Id := ''''\<rparr>, wQ)"
    using r by (rule queue_read_account_missing)
  show "resourceArmStorageQueueExists apiQ d wQ = ((False, None), d\<lparr>Id := ''''\<rparr>, wQ)"
    using r by (rule queue_exists_account_missing)
  show "resourceArmStorageQueueDelete apiQ d wQ = (None, d, wQ)"
    using r by (rule queue_delete_account_missing)
  show "resourceArmStorageQueueCreate apiQ d wQ =
            (Some (Errorf ''Storage Account %q Not Found'' [Get d ''storage_account_name'']), d, wQ)"
    using r by (rule queue_create_account_missing)
next
  assume r: "getBlobStorageClientForStorageAccount apiB wB (Get d ''resource_group_name'')
        (Get d ''storage_account_name'') = (cB, False, None)"
  show "resourceArmStorageContainerRead apiB d wB = (None, d\<lparr>Id := ''''\<rparr>, wB)"
    using r by (rule container_read_account_missing)
  show "resourceArmStorageContainerExists apiB d wB = ((False, None), d\<lparr>Id := ''''\<rparr>, wB)"
    using r by (rule container_exists_account_missing)
  show "resourceArmStorageContainerDelete apiB d wB = (None, d, wB)"
    using r by (rule container_delete_account_missing)
  show "resourceArmStorageContainerCreate apiB d wB =
            (Some (Errorf ''Storage Account %q Not Found'' [Get d ''storage_account_name'']), d, wB)"
    using r by (rule container_create_account_missing)
qed

text \<open>
  Witness for C3: no storage account exists; the local state holds the identifier \<open>tab1\<close>.
\<close>

theorem C3_account_missing_witness:
  "resourceArmStorageTableRead sim_tables (example_resource\<lparr>Id := ''tab1''\<rparr>) [] =
     (None, example_resource\<lparr>Id := ''''\<rparr>, [])
   \<and> resourceArmStorageTableDelete sim_tables (example_resource\<lparr>Id := ''tab1''\<rparr>) [] =
     (None, example_resource\<lparr>Id := ''tab1''\<rparr>, [])
   \<and> resourceArmStorageQueueExists sim_queues (example_resource\<lparr>Id := ''tab1''\<rparr>) [] =
     ((False, None), example_resource\<lparr>Id := ''''\<rparr>, [])
   \<and> resourceArmStorageQueueDelete sim_queues (example_resource\<lparr>Id := ''tab1''\<rparr>) [] =
     (None, example_resource\<lparr>Id := ''tab1''\<rparr>, [])
   \<and> resourceArmStorageContainerRead (sim_blobs Second) (example_resource\<lparr>Id := ''tab1''\<rparr>) ([], 0) =
     (None, example_resource\<lparr>Id := ''''\<rparr>, ([], 0))
   \<and> resourceArmStorageContainerCreate (sim_blobs Second) (example_resource\<lparr>Id := ''tab1''\<rparr>) ([], 0) =
     (Some (Errorf ''Storage Account %q Not Found'' [''acct'']), example_resource\<lparr>Id := ''tab1''\<rparr>, ([], 0))"
proof -
  let ?d = "example_resource\<lparr>Id := ''tab1''\<rparr>"
  have rT: "getTableServiceClientForStorageAccount sim_tables [] (Get ?d ''resource_group_name'')
              (Get ?d ''storage_account_name'') = (''acct'', False, None)"
    by (simp add: sim_tables_def example_resource_fields sim_resolve_missing)
  have rQ: "getQueueServiceClientForStorageAccount sim_queues [] (Get ?d ''resource_group_name'')
              (Get ?d ''storage_account_name'') = (''acct'', False, None)"
    by (simp add: sim_queues_def example_resource_fields sim_resolve_missing)
  have rB: "getBlobStorageClientForStorageAccount (sim_blobs Second) ([], 0) (Get ?d ''resource_group_name'')
              (Get ?d ''storage_account_name'') = (''acct'', False, None)"
    by (simp add: sim_blobs_def example_resource_fields sim_resolve_missing)
  note inst = C3_account_missing
    [where apiT = sim_tables and wT = "[]" and d = ?d and cT = "''acct''"
       and apiQ = sim_queues and wQ = "[]" and cQ = "''acct''"
       and apiB = "sim_blobs Second" and wB = "([], 0)" and cB = "''acct''"]
  from rT inst [THEN conjunct1]
  have t: "resourceArmStorageTableRead sim_tables ?d [] = (None, example_resource\<lparr>Id := ''''\<rparr>, [])
        \<and> resourceArmStorageTableDelete sim_tables ?d [] = (None, ?d, [])"
    by simp
  from rQ inst [THEN conjunct2, THEN conjunct1]
  have q: "resourceArmStorageQueueExists sim_queues ?d [] = ((False, None), example_resource\<lparr>Id := ''''\<rparr>, [])
        \<and> resourceArmStorageQueueDelete sim_queues ?d [] = (None, ?d, [])"
    by simp
  from rB inst [THEN conjunct2, THEN conjunct2]
  have b: "resourceArmStorageContainerRead (sim_blobs Second) ?d ([], 0) = (None, example_resource\<lparr>Id := ''''\<rparr>, ([], 0))
        \<and> resourceArmStorageContainerCreate (sim_blobs Second) ?d ([], 0) =
            (Some (Errorf ''Storage Account %q Not Found'' [''acct'']), ?d, ([], 0))"
    by (simp add: example_resource_fields)
  from t q b show ?thesis
    by simp
qed

lemma range_Containers_result:
  "name \<in> Container.Name ` set cs \<Longrightarrow>
     \<exists>cont \<in> set cs. Container.Name cont = name \<and>
       range_Containers name cs (found, d) = (True, d\<lparr>properties := props cont\<rparr>)"
proof (induction cs arbitrary: found d)
  case Nil
  then show ?case by simp
next
  case (Cons x xs)
  show ?case
  proof (cases "name \<in> Container.Name ` set xs")
    case True
    show ?thesis
    proof (cases "Container.Name x = name")
      case matching: True
      from Cons.IH [OF \<open>name \<in> Container.Name ` set xs\<close>, of True "d\<lparr>properties := props x\<rparr>"]
      obtain cont where "cont \<in> set xs" "Container.Name cont = name"
        "range_Containers name xs (True, d\<lparr>properties := props x\<rparr>) = (True, d\<lparr>properties := props cont\<rparr>)"
        by auto
      with matching show ?thesis by auto
    next
      case other: False
      from Cons.IH [OF \<open>name \<in> Container.Name ` set xs\<close>, of found d]
      obtain cont where "cont \<in> set xs" "Container.Name cont = name"
        "range_Containers name xs (found, d) = (True, d\<lparr>properties := props cont\<rparr>)"
        by auto
      with other show ?thesis by auto
    qed
  next
    case False
    with Cons.prems have "Container.Name x = name" by auto
    with False show ?thesis
      by (simp add: range_Containers_absent)
  qed
qed

lemma container_read_refreshes:
  assumes "getBlobStorageClientForStorageAccount api w (Get d ''resource_group_name'')
             (Get d ''storage_account_name'') = (c, True, None)"
    and "ListContainers api w c (Get d ''name'') = Inr cs"
    and "Get d ''name'' \<in> Container.Name ` set cs"
  shows "\<exists>cont \<in> set cs. Container.Name cont = Get d ''name'' \<and>
           resourceArmStorageContainerRead api d w = (None, d\<lparr>properties := props cont\<rparr>, w)"
proof -
  from range_Containers_result [OF assms(3), of False d]
  obtain cont where cont: "cont \<in> set cs" "Container.Name cont = Get d ''name''"
    "range_Containers (Get d ''name'') cs (False, d) = (True, d\<lparr>properties := props cont\<rparr>)"
    by blast
  have "resourceArmStorageContainerRead api d w = (None, d\<lparr>properties := props cont\<rparr>, w)"
    using assms(1,2) cont(3) by (simp add: resourceArmStorageContainerRead_def Let_def)
  with cont(1,2) show ?thesis by blast
qed




text \<open>
  Claim C7: for the queue and the container resource, Exists returns the answer of the remote
  existence query; when the object is missing it also clears the local identifier, and when
  the object is present it leaves the local state as it is.
\<close>

theorem C7_exists_answers_and_clears:
  "(getQueueServiceClientForStorageAccount apiQ wQ (Get d ''resource_group_name'')
        (Get d ''storage_account_name'') = (cQ, True, None)
      \<and> Queue_Exists apiQ wQ (cQ, Get d ''name'') = (present, None)
    \<longrightarrow> resourceArmStorageQueueExists apiQ d wQ =
          ((present, None), (if present then d else d\<lparr>Id := ''''\<rparr>), wQ))
   \<and> (getBlobStorageClientForStorageAccount apiB wB (Get d ''resource_group_name'')
        (Get d ''storage_account_name'') = (cB, True, None)
      \<and> Container_Exists apiB wB (cB, Get d ''name'') = (present, None)
    \<longrightarrow> resourceArmStorageContainerExists apiB d wB =
          ((present, None), (if present then d else d\<lparr>Id := ''''\<rparr>), wB))"
proof (intro conjI)
  show "getQueueServiceClientForStorageAccount apiQ wQ (Get d ''resource_group_name'')
        (Get d ''storage_account_name'') = (cQ, True, None)
      \<and> Queue_Exists apiQ wQ (cQ, Get d ''name'') = (present, None)
    \<longrightarrow> resourceArmStorageQueueExists apiQ d wQ =
          ((present, None), (if present then d else d\<lparr>Id := ''''\<rparr>), wQ)"
    by (intro impI, elim conjE, rule queue_exists_answer)
next
  show "getBlobStorageClientForStorageAccount apiB wB (Get d ''resource_group_name'')
        (Get d ''storage_account_name'') = (cB, True, None)
      \<and> Container_Exists apiB wB (cB, Get d ''name'') = (present, None)
    \<longrightarrow> resourceArmStorageContainerExists apiB d wB =
          ((present, None), (if present then d else d\<lparr>Id := ''''\<rparr>), wB)"
    by (intro impI, elim conjE, rule container_exists_answer)
qed

text \<open>
  Witness for C7: the queue \<open>tab1\<close> is missing (the account holds \<open>tab0\<close>), the container \<open>tab1\<close>
  is present; the local state holds the identifier \<open>tab1\<close>.
\<close>

theorem C7_exists_witness:
  "resourceArmStorageQueueExists sim_queues (example_resource\<lparr>Id := ''tab1''\<rparr>) [(''acct'', [''tab0''])] =
     ((False, None), example_resource\<lparr>Id := ''''\<rparr>, [(''acct'', [''tab0''])])
   \<and> resourceArmStorageContainerExists (sim_blobs Second) (example_resource\<lparr>Id := ''tab1''\<rparr>)
       ([(''acct'', [''tab1''])], 0) =
     ((True, None), example_resource\<lparr>Id := ''tab1''\<rparr>, ([(''acct'', [''tab1''])], 0))"
proof -
  let ?d = "example_resource\<lparr>Id := ''tab1''\<rparr>"
  let ?w0 = "[(''acct'', [''tab0''])]"
  let ?w1 = "([(''acct'', [''tab1''])], 0::nat)"
  have rQ: "getQueueServiceClientForStorageAccount sim_queues ?w0 (Get ?d ''resource_group_name'')
              (Get ?d ''storage_account_name'') = (''acct'', True, None)"
    by (simp add: sim_queues_def example_resource_fields sim_resolve_found)
  have eQ: "Queue_Exists sim_queues ?w0 (''acct'', Get ?d ''name'') = (False, None)"
    by (simp add: sim_queues_def example_resource_fields sim_names_acct)
  have rB: "getBlobStorageClientForStorageAccount (sim_blobs Second) ?w1 (Get ?d ''resource_group_name'')
              (Get ?d ''storage_account_name'') = (''acct'', True, None)"
    by (simp add: sim_blobs_def example_resource_fields sim_resolve_found)
  have eB: "Container_Exists (sim_blobs Second) ?w1 (''acct'', Get ?d ''name'') = (True, None)"
    by (simp add: sim_blobs_def example_resource_fields sim_names_acct)
  have q: "resourceArmStorageQueueExists sim_queues ?d ?w0 = ((False, None), example_resource\<lparr>Id := ''''\<rparr>, ?w0)"
    using rQ eQ
      C7_exists_answers_and_clears [where apiQ = sim_queues and wQ = ?w0 and d = ?d and cQ = "''acct''"
        and present = False, THEN conjunct1]
    by simp
  have b: "resourceArmStorageContainerExists (sim_blobs Second) ?d ?w1 = ((True, None), ?d, ?w1)"
    using rB eB
      C7_exists_answers_and_clears [where apiB = "sim_blobs Second" and wB = ?w1 and d = ?d and cB = "''acct''"
        and present = True, THEN conjunct2]
    by simp
  show ?thesis
    by (intro conjI q b)
qed

section \<open>Properties of the bounded retry\<close>

lemma Retry_run_budget_elapsed:
  "timeout \<le> elapsed \<Longrightarrow>
     Retry_run timeout f elapsed attempts lastErr w =
       ((Some (case lastErr of None \<Rightarrow> ''timeout'' | Some e \<Rightarrow> e), attempts, elapsed), w)"
  by (simp add: Retry_run.simps)

lemma Retry_run_late:
  "elapsed < timeout \<Longrightarrow> f w = ((r, took), w') \<Longrightarrow> timeout < elapsed + took \<Longrightarrow>
     Retry_run timeout f elapsed attempts lastErr w =
       ((Some (case r of None \<Rightarrow> ''timeout'' | Some rerr \<Rightarrow> Err rerr), Suc attempts, elapsed + took), w')"
  by (subst Retry_run.simps) simp

lemma Retry_run_success:
  "elapsed < timeout \<Longrightarrow> f w = ((None, took), w') \<Longrightarrow> elapsed + took \<le> timeout \<Longrightarrow>
     Retry_run timeout f elapsed attempts lastErr w = ((None, Suc attempts, elapsed + took), w')"
  by (subst Retry_run.simps) simp

lemma Retry_run_retry:
  "elapsed < timeout \<Longrightarrow> f w = ((Some (RetryableError e), took), w') \<Longrightarrow> elapsed + took \<le> timeout \<Longrightarrow>
     Retry_run timeout f elapsed attempts lastErr w =
       Retry_run timeout f (elapsed + Suc took) (Suc attempts) (Some e) w'"
  by (subst Retry_run.simps) simp

lemma Retry_run_fatal:
  "elapsed < timeout \<Longrightarrow> f w = ((Some (NonRetryableError e), took), w') \<Longrightarrow> elapsed + took \<le> timeout \<Longrightarrow>
     Retry_run timeout f elapsed attempts lastErr w = ((Some e, Suc attempts, elapsed + took), w')"
  by (subst Retry_run.simps) simp

text \<open>
  The cases of one round of the loop, for a function that never answers with a non-retryable
  error: the budget has elapsed; the attempt ends after the budget; it succeeds within the
  budget; it fails within the budget and the loop goes on.
\<close>

lemma Retry_run_round:
  fixes f :: "'w \<Rightarrow> (RetryError option \<times> nat) \<times> 'w" and timeout elapsed :: nat
  assumes never_fatal: "\<And>w e took w'. f w \<noteq> ((Some (NonRetryableError e), took), w')"
  obtains
    (elapsed) "timeout \<le> elapsed"
  | (late) r took w' where "elapsed < timeout" "f w = ((r, took), w')" "timeout < elapsed + took"
  | (success) took w' where "elapsed < timeout" "f w = ((None, took), w')" "elapsed + took \<le> timeout"
  | (retry) e took w' where "elapsed < timeout" "f w = ((Some (RetryableError e), took), w')"
      "elapsed + took \<le> timeout"
proof (cases "timeout \<le> elapsed")
  case True
  then show ?thesis by (rule elapsed)
next
  case False
  then have lt: "elapsed < timeout" by simp
  obtain r took w' where fw: "f w = ((r, took), w')"
    by (metis prod.exhaust)
  show ?thesis
  proof (cases "timeout < elapsed + took")
    case True
    with lt fw show ?thesis by (rule late)
  next
    case False
    then have within: "elapsed + took \<le> timeout" by simp
    show ?thesis
    proof (cases r)
      case None
      with fw have "f w = ((None, took), w')" by simp
      with lt show ?thesis using within by (rule success)
    next
      case (Some rerr)
      show ?thesis
      proof (cases rerr)
        case (RetryableError e)
        with Some fw have "f w = ((Some (RetryableError e), took), w')" by simp
        with lt show ?thesis using within by (rule retry)
      next
        case (NonRetryableError e)
        with Some fw never_fatal [of w e took w'] show ?thesis by simp
      qed
    qed
  qed
qed

text \<open>The function retried for the container never answers with a non-retryable error.\<close>

lemma checkContainerIsCreated_classifies:
  "fst (fst (checkContainerIsCreated api reference w)) =
     map_option RetryableError (snd (fst (fst (Container_CreateIfNotExists api reference w))))"
  by (simp add: checkContainerIsCreated_def split: prod.splits option.splits)

lemma checkContainerIsCreated_never_fatal:
  "checkContainerIsCreated api reference w \<noteq> ((Some (NonRetryableError e), took), w')"
  by (simp add: checkContainerIsCreated_def split: prod.splits option.splits)

text \<open>An error comes out of the run only once the budget has elapsed, when no attempt
  answers with a non-retryable error.\<close>

lemma Retry_run_error_after_budget:
  assumes "\<And>w e took w'. f w \<noteq> ((Some (NonRetryableError e), took), w')"
    and "Retry_run timeout f elapsed attempts lastErr w = ((Some e, n, t), w')"
  shows "timeout \<le> t"
  using assms
proof (induction timeout f elapsed attempts lastErr w rule: Retry_run.induct)
  case (1 timeout f elapsed attempts lastErr w)
  note never_fatal = "1.prems"(1) and run = "1.prems"(2)
  from never_fatal show ?case
  proof (cases rule: Retry_run_round [where f = f and timeout = timeout and elapsed = elapsed and w = w])
    case elapsed
    with run show ?thesis
      by (simp add: Retry_run_budget_elapsed)
  next
    case (late r took w1)
    from run Retry_run_late [where f = f, OF late] have "t = elapsed + took" by simp
    with late(3) show ?thesis by simp
  next
    case (success took w1)
    from run Retry_run_success [where f = f, OF success] show ?thesis
      by simp
  next
    case (retry x took w1)
    from retry(1) have not_elapsed: "\<not> timeout \<le> elapsed" by simp
    from retry(3) have not_late: "\<not> timeout < elapsed + took" by simp
    from run have "Retry_run timeout f (elapsed + Suc took) (Suc attempts) (Some x) w1 = ((Some e, n, t), w')"
      by (simp add: Retry_run_retry [where f = f, OF retry])
    with "1.IH" [OF not_elapsed retry(2) [symmetric] refl not_late refl refl never_fatal]
    show ?thesis by simp
  qed
qed

text \<open>Every attempt, with its pause, uses at least one nanosecond of the budget.\<close>

lemma Retry_run_attempts_bounded:
  assumes "\<And>w e took w'. f w \<noteq> ((Some (NonRetryableError e), took), w')"
    and "Retry_run timeout f elapsed attempts lastErr w = ((r, n, t), w')"
  shows "n \<le> attempts + (timeout - elapsed)"
  using assms
proof (induction timeout f elapsed attempts lastErr w rule: Retry_run.induct)
  case (1 timeout f elapsed attempts lastErr w)
  note never_fatal = "1.prems"(1) and run = "1.prems"(2)
  from never_fatal show ?case
  proof (cases rule: Retry_run_round [where f = f and timeout = timeout and elapsed = elapsed and w = w])
    case elapsed
    with run show ?thesis
      by (simp add: Retry_run_budget_elapsed)
  next
    case (late r0 took w1)
    from run Retry_run_late [where f = f, OF late] have "n = Suc attempts" by simp
    with late(1) show ?thesis by arith
  next
    case (success took w1)
    from run Retry_run_success [where f = f, OF success] have "n = Suc attempts" by simp
    with success(1) show ?thesis by arith
  next
    case (retry x took w1)
    from retry(1) have not_elapsed: "\<not> timeout \<le> elapsed" by simp
    from retry(3) have not_late: "\<not> timeout < elapsed + took" by simp
    from run have "Retry_run timeout f (elapsed + Suc took) (Suc attempts) (Some x) w1 = ((r, n, t), w')"
      by (simp add: Retry_run_retry [where f = f, OF retry])
    with "1.IH" [OF not_elapsed retry(2) [symmetric] refl not_late refl refl never_fatal]
    have "n \<le> Suc attempts + (timeout - (elapsed + Suc took))" by simp
    with retry(1) show ?thesis by arith
  qed
qed

lemma after_attempts_clock_mono:
  "elapsed \<le> fst (after_attempts f k (elapsed, w))"
proof (induction k arbitrary: elapsed w)
  case 0
  show ?case by simp
next
  case (Suc k)
  obtain r took w1 where fw: "f w = ((r, took), w1)"
    by (metis prod.exhaust)
  from Suc [of "elapsed + Suc took" w1] fw show ?case
    by simp
qed

lemma after_attempts_Suc:
  "f w = ((r, took), w') \<Longrightarrow>
     after_attempts f (Suc k) (elapsed, w) = after_attempts f k (elapsed + Suc took, w')"
  by simp

lemma succeeds_within_0:
  "succeeds_within timeout f (elapsed, w) 0 \<longleftrightarrow>
     (\<exists>took w'. f w = ((None, took), w') \<and> elapsed < timeout \<and> elapsed + took \<le> timeout)"
  by (auto simp: succeeds_within_def split: prod.splits)

lemma succeeds_within_Suc:
  "f w = ((r, took), w') \<Longrightarrow>
     succeeds_within timeout f (elapsed, w) (Suc k) = succeeds_within timeout f (elapsed + Suc took, w') k"
  by (simp add: succeeds_within_def)

lemma succeeds_within_start:
  "succeeds_within timeout f (elapsed, w) k \<Longrightarrow> fst (after_attempts f k (elapsed, w)) < timeout"
  by (auto simp: succeeds_within_def split: prod.splits)

text \<open>The run succeeds exactly when some attempt succeeds within the budget, when no
  attempt answers with a non-retryable error.\<close>

lemma Retry_run_succeeds:
  assumes never_fatal: "\<And>w e took w'. f w \<noteq> ((Some (NonRetryableError e), took), w')"
    and "succeeds_within timeout f (elapsed, w) k"
  shows "fst (fst (Retry_run timeout f elapsed attempts lastErr w)) = None"
  using assms(2)
proof (induction k arbitrary: elapsed w attempts lastErr)
  case 0
  then obtain took w' where "f w = ((None, took), w')" "elapsed < timeout" "elapsed + took \<le> timeout"
    by (auto simp: succeeds_within_0)
  from Retry_run_success [where f = f, OF this(2) this(1) this(3)] show ?case
    by simp
next
  case (Suc k)
  have "elapsed \<le> fst (after_attempts f (Suc k) (elapsed, w))"
    by (rule after_attempts_clock_mono)
  with succeeds_within_start [OF Suc.prems] have lt: "elapsed < timeout" by simp
  from never_fatal show ?case
  proof (cases rule: Retry_run_round [where f = f and timeout = timeout and elapsed = elapsed and w = w])
    case elapsed
    with lt show ?thesis by simp
  next
    case (late r took w1)
    have "elapsed + Suc took \<le> fst (after_attempts f k (elapsed + Suc took, w1))"
      by (rule after_attempts_clock_mono)
    with late(2) have "elapsed + Suc took \<le> fst (after_attempts f (Suc k) (elapsed, w))"
      by simp
    with succeeds_within_start [OF Suc.prems] late(3) show ?thesis by simp
  next
    case (success took w1)
    from Retry_run_success [where f = f, OF success] show ?thesis
      by simp
  next
    case (retry x took w1)
    from Suc.prems retry(2) have "succeeds_within timeout f (elapsed + Suc took, w1) k"
      by (simp add: succeeds_within_Suc)
    from Suc.IH [OF this] show ?thesis
      by (simp add: Retry_run_retry [where f = f, OF retry])
  qed
qed

lemma Retry_run_success_cause:
  assumes "\<And>w e took w'. f w \<noteq> ((Some (NonRetryableError e), took), w')"
    and "fst (fst (Retry_run timeout f elapsed attempts lastErr w)) = None"
  shows "\<exists>k. succeeds_within timeout f (elapsed, w) k"
  using assms
proof (induction timeout f elapsed attempts lastErr w rule: Retry_run.induct)
  case (1 timeout f elapsed attempts lastErr w)
  note never_fatal = "1.prems"(1) and run = "1.prems"(2)
  from never_fatal show ?case
  proof (cases rule: Retry_run_round [where f = f and timeout = timeout and elapsed = elapsed and w = w])
    case elapsed
    with run show ?thesis
      by (simp add: Retry_run_budget_elapsed)
  next
    case (late r took w1)
    from run Retry_run_late [where f = f, OF late] show ?thesis
      by simp
  next
    case (success took w1)
    then have "succeeds_within timeout f (elapsed, w) 0"
      by (simp add: succeeds_within_0)
    then show ?thesis ..
  next
    case (retry x took w1)
    from retry(1) have not_elapsed: "\<not> timeout \<le> elapsed" by simp
    from retry(3) have not_late: "\<not> timeout < elapsed + took" by simp
    from run have "fst (fst (Retry_run timeout f (elapsed + Suc took) (Suc attempts) (Some x) w1)) = None"
      by (simp add: Retry_run_retry [where f = f, OF retry])
    with "1.IH" [OF not_elapsed retry(2) [symmetric] refl not_late refl refl never_fatal]
    obtain k where "succeeds_within timeout f (elapsed + Suc took, w1) k"
      by blast
    with retry(2) have "succeeds_within timeout f (elapsed, w) (Suc k)"
      by (simp add: succeeds_within_Suc)
    then show ?thesis ..
  qed
qed

text \<open>
  The remote state the run leaves is the state after the attempts it reports, and the last
  of them started before the budget had elapsed: no attempt is made after that.
\<close>

lemma Retry_run_trace:
  assumes "\<And>w e took w'. f w \<noteq> ((Some (NonRetryableError e), took), w')"
    and "Retry_run timeout f elapsed attempts lastErr w = ((r, n, t), w')"
  shows "attempts \<le> n \<and> w' = snd (after_attempts f (n - attempts) (elapsed, w))
         \<and> (attempts < n \<longrightarrow> fst (after_attempts f (n - Suc attempts) (elapsed, w)) < timeout)"
  using assms
proof (induction timeout f elapsed attempts lastErr w rule: Retry_run.induct)
  case (1 timeout f elapsed attempts lastErr w)
  note never_fatal = "1.prems"(1) and run = "1.prems"(2)
  from never_fatal show ?case
  proof (cases rule: Retry_run_round [where f = f and timeout = timeout and elapsed = elapsed and w = w])
    case elapsed
    with run show ?thesis
      by (simp add: Retry_run_budget_elapsed)
  next
    case (late r0 took w1)
    from run Retry_run_late [where f = f, OF late] have "n = Suc attempts" "w' = w1" by simp_all
    with late(1,2) show ?thesis by simp
  next
    case (success took w1)
    from run Retry_run_success [where f = f, OF success] have "n = Suc attempts" "w' = w1" by simp_all
    with success(1,2) show ?thesis by simp
  next
    case (retry x took w1)
    from retry(1) have not_elapsed: "\<not> timeout \<le> elapsed" by simp
    from retry(3) have not_late: "\<not> timeout < elapsed + took" by simp
    from run have "Retry_run timeout f (elapsed + Suc took) (Suc attempts) (Some x) w1 = ((r, n, t), w')"
      by (simp add: Retry_run_retry [where f = f, OF retry])
    with "1.IH" [OF not_elapsed retry(2) [symmetric] refl not_late refl refl never_fatal]
    have ih: "Suc attempts \<le> n" "w' = snd (after_attempts f (n - Suc attempts) (elapsed + Suc took, w1))"
      "Suc attempts < n \<longrightarrow> fst (after_attempts f (n - Suc (Suc attempts)) (elapsed + Suc took, w1)) < timeout"
      by simp_all
    from ih(1) obtain m where m: "n - attempts = Suc m" "n - Suc attempts = m"
      by (cases "n - attempts") auto
    have state: "w' = snd (after_attempts f (n - attempts) (elapsed, w))"
      using ih(2) m retry(2) by simp
    have start: "fst (after_attempts f (n - Suc attempts) (elapsed, w)) < timeout"
    proof (cases m)
      case 0
      with m retry(1) show ?thesis by simp
    next
      case (Suc j)
      with m have "Suc attempts < n" "n - Suc (Suc attempts) = j" by arith+
      with ih(3) Suc m retry(2) show ?thesis by simp
    qed
    from ih(1) state start show ?thesis by simp
  qed
qed

text \<open>What holds of the remote state before every attempt and is established by a success
  holds of the state a successful run leaves.\<close>

lemma Retry_run_success_state:
  assumes "\<And>w r took w'. I w \<Longrightarrow> f w = ((r, took), w') \<Longrightarrow> I w' \<and> (r = None \<longrightarrow> Q w')"
    and "I w"
    and "Retry_run timeout f elapsed attempts lastErr w = ((None, n, t), w1)"
  shows "Q w1"
  using assms
proof (induction timeout f elapsed attempts lastErr w rule: Retry_run.induct)
  case (1 timeout f elapsed attempts lastErr w)
  note step = "1.prems"(1) and inv = "1.prems"(2) and run = "1.prems"(3)
  show ?case
  proof (cases "timeout \<le> elapsed")
    case True
    with run show ?thesis
      by (simp add: Retry_run_budget_elapsed)
  next
    case False
    then have lt: "elapsed < timeout" by simp
    obtain r took w' where fw: "f w = ((r, took), w')"
      by (metis prod.exhaust)
    from step [OF inv fw] have inv': "I w'" and post: "r = None \<longrightarrow> Q w'" by simp_all
    show ?thesis
    proof (cases "timeout < elapsed + took")
      case True
      from run Retry_run_late [where f = f, OF lt fw True] show ?thesis
        by simp
    next
      case not_late: False
      then have within: "elapsed + took \<le> timeout" by simp
      show ?thesis
      proof (cases r)
        case None
        with fw have fw': "f w = ((None, took), w')" by simp
        from run Retry_run_success [where f = f, OF lt fw' within] have "w1 = w'" by simp
        with post None show ?thesis by simp
      next
        case (Some rerr)
        show ?thesis
        proof (cases rerr)
          case (RetryableError x)
          with Some fw have fw': "f w = ((Some (RetryableError x), took), w')" by simp
          from run have "Retry_run timeout f (elapsed + Suc took) (Suc attempts) (Some x) w' = ((None, n, t), w1)"
            by (simp add: Retry_run_retry [where f = f, OF lt fw' within])
          with "1.IH" [OF False fw [symmetric] refl not_late _ _ step inv'] Some RetryableError
          show ?thesis by simp
        next
          case (NonRetryableError x)
          with Some fw have fw': "f w = ((Some (NonRetryableError x), took), w')" by simp
          from run Retry_run_fatal [where f = f, OF lt fw' within] show ?thesis
            by simp
        qed
      qed
    qed
  qed
qed

lemma Retry_result:
  "Retry timeout f w = (fst (fst (Retry_run timeout f 0 0 None w)), snd (Retry_run timeout f 0 0 None w))"
  by (simp add: Retry_def split: prod.splits)

lemma container_create_retry_fatal:
  assumes "getBlobStorageClientForStorageAccount api w (Get d ''resource_group_name'')
             (Get d ''storage_account_name'') = (c, True, None)"
    and "Container_Exists api w (c, Get d ''name'') = (False, None)"
    and "Retry (120 * Second) (checkContainerIsCreated api (c, Get d ''name'')) w = (Some e, w')"
  shows "resourceArmStorageContainerCreate api d w =
           (Some (Errorf ''Error creating container %q in storage account %q: %s''
                    [Get d ''name'', Get d ''storage_account_name'', e]), d, w')"
  using assms by (simp add: resourceArmStorageContainerCreate_def Let_def)

section \<open>The retry on the simulated blob side\<close>

lemma sim_check_fail:
  "checkContainerIsCreated (sim_blobs took) (''acct'', n) (w, Suc k) =
     ((Some (RetryableError ''503 ServerBusy''), took), (w, k))"
  by (simp add: checkContainerIsCreated_def sim_blobs_def)

lemma sim_check_create:
  "n \<notin> set ns \<Longrightarrow>
   checkContainerIsCreated (sim_blobs took) (''acct'', n) ([(''acct'', ns)], 0) =
     ((None, took), ([(''acct'', ns @ [n])], 0))"
  by (simp add: checkContainerIsCreated_def sim_blobs_def sim_names_acct sim_put_acct)

lemma sim_one_failure:
  "after_attempts (checkContainerIsCreated (sim_blobs (50 * Second)) (''acct'', ''tab1''))
     1 (0, ([(''acct'', [''tab0''])], 1)) = (50 * Second + 1, ([(''acct'', [''tab0''])], 0))"
  by (simp add: sim_check_fail)

lemma sim_one_failure_run:
  "Retry_run (120 * Second) (checkContainerIsCreated (sim_blobs (50 * Second)) (''acct'', ''tab1'')) 0 0 None
     ([(''acct'', [''tab0''])], 1) =
   ((None, 2, 100 * Second + 1), ([(''acct'', [''tab0'', ''tab1''])], 0))"
  by (simp add: sim_check_fail sim_check_create Retry_run.simps Second_def)

lemma sim_two_failures_run:
  "Retry_run (120 * Second) (checkContainerIsCreated (sim_blobs (50 * Second)) (''acct'', ''tab1'')) 0 0 None
     ([(''acct'', [''tab0''])], 2) =
   ((Some ''timeout'', 3, 150 * Second + 2), ([(''acct'', [''tab0'', ''tab1''])], 0))"
  by (simp add: numeral_2_eq_2 sim_check_fail sim_check_create Retry_run.simps Second_def)

lemma sim_three_failures_run:
  "Retry_run (120 * Second) (checkContainerIsCreated (sim_blobs (50 * Second)) (''acct'', ''tab1'')) 0 0 None
     ([(''acct'', [''tab0''])], 3) =
   ((Some ''503 ServerBusy'', 3, 150 * Second + 2), ([(''acct'', [''tab0''])], 0))"
  by (simp add: numeral_3_eq_3 sim_check_fail Retry_run.simps Second_def)

section \<open>The claim on the retry wrapper\<close>

text \<open>
  Claim C5: the retry wrapper of the container creation treats every failure of the "create
  if not exists" call as retryable, and retries while the budget (120 seconds in Create) has
  not elapsed: an error comes out of it only once the budget has elapsed. The wrapper
  returns success exactly when some attempt succeeds within the budget (it starts before the
  budget has elapsed and ends no later than the budget); so when the budget elapses without
  such a success the wrapper returns an error. No attempt is made after the budget: the
  last attempt of the run started within the budget, and the remote state is left as that
  attempt left it. Create returns the error of the wrapper as fatal.
  Time is the clock of the retry model: each attempt takes the time the call reports, and
  a failed attempt is followed by a pause.
\<close>

theorem C5_bounded_retry:
  "(\<forall>w. fst (fst (checkContainerIsCreated api reference w)) =
          map_option RetryableError (snd (fst (fst (Container_CreateIfNotExists api reference w)))))
   \<and> (fst (Retry timeout (checkContainerIsCreated api reference) w) = None
        \<longleftrightarrow> (\<exists>k. succeeds_within timeout (checkContainerIsCreated api reference) (0, w) k))
   \<and> (Retry_run timeout (checkContainerIsCreated api reference) 0 0 None w = ((r, n, t), w')
    \<longrightarrow> (r \<noteq> None \<longrightarrow> timeout \<le> t)
        \<and> n \<le> timeout
        \<and> w' = snd (after_attempts (checkContainerIsCreated api reference) n (0, w))
        \<and> (0 < n \<longrightarrow> fst (after_attempts (checkContainerIsCreated api reference) (n - 1) (0, w)) < timeout))
   \<and> (getBlobStorageClientForStorageAccount api w (Get d ''resource_group_name'')
          (Get d ''storage_account_name'') = (c, True, None)
      \<and> Container_Exists api w (c, Get d ''name'') = (False, None)
      \<and> Retry (120 * Second) (checkContainerIsCreated api (c, Get d ''name'')) w = (Some e, w')
    \<longrightarrow> resourceArmStorageContainerCreate api d w =
          (Some (Errorf ''Error creating container %q in storage account %q: %s''
                   [Get d ''name'', Get d ''storage_account_name'', e]), d, w'))"
proof (intro conjI)
  show "\<forall>w. fst (fst (checkContainerIsCreated api reference w)) =
          map_option RetryableError (snd (fst (fst (Container_CreateIfNotExists api reference w))))"
    by (simp add: checkContainerIsCreated_classifies)
next
  show "fst (Retry timeout (checkContainerIsCreated api reference) w) = None
        \<longleftrightarrow> (\<exists>k. succeeds_within timeout (checkContainerIsCreated api reference) (0, w) k)"
  proof
    assume "fst (Retry timeout (checkContainerIsCreated api reference) w) = None"
    then have "fst (fst (Retry_run timeout (checkContainerIsCreated api reference) 0 0 None w)) = None"
      by (simp add: Retry_result)
    then show "\<exists>k. succeeds_within timeout (checkContainerIsCreated api reference) (0, w) k"
      by (rule Retry_run_success_cause [where f = "checkContainerIsCreated api reference",
            OF checkContainerIsCreated_never_fatal])
  next
    assume "\<exists>k. succeeds_within timeout (checkContainerIsCreated api reference) (0, w) k"
    then obtain k where "succeeds_within timeout (checkContainerIsCreated api reference) (0, w) k" ..
    then have "fst (fst (Retry_run timeout (checkContainerIsCreated api reference) 0 0 None w)) = None"
      by (rule Retry_run_succeeds [where f = "checkContainerIsCreated api reference",
            OF checkContainerIsCreated_never_fatal])
    then show "fst (Retry timeout (checkContainerIsCreated api reference) w) = None"
      by (simp add: Retry_result)
  qed
next
  show "Retry_run timeout (checkContainerIsCreated api reference) 0 0 None w = ((r, n, t), w')
    \<longrightarrow> (r \<noteq> None \<longrightarrow> timeout \<le> t)
        \<and> n \<le> timeout
        \<and> w' = snd (after_attempts (checkContainerIsCreated api reference) n (0, w))
        \<and> (0 < n \<longrightarrow> fst (after_attempts (checkContainerIsCreated api reference) (n - 1) (0, w)) < timeout)"
  proof (intro impI conjI)
    assume run: "Retry_run timeout (checkContainerIsCreated api reference) 0 0 None w = ((r, n, t), w')"
    note trace = Retry_run_trace [where f = "checkContainerIsCreated api reference",
        OF checkContainerIsCreated_never_fatal run]
    show "timeout \<le> t" if "r \<noteq> None"
    proof -
      from that obtain x where "r = Some x" by auto
      with run have "Retry_run timeout (checkContainerIsCreated api reference) 0 0 None w = ((Some x, n, t), w')"
        by simp
      then show ?thesis
        by (rule Retry_run_error_after_budget [where f = "checkContainerIsCreated api reference",
              OF checkContainerIsCreated_never_fatal])
    qed
    from Retry_run_attempts_bounded [where f = "checkContainerIsCreated api reference",
        OF checkContainerIsCreated_never_fatal run]
    show "n \<le> timeout" by simp
    from trace show "w' = snd (after_attempts (checkContainerIsCreated api reference) n (0, w))"
      by simp
    show "fst (after_attempts (checkContainerIsCreated api reference) (n - 1) (0, w)) < timeout" if "0 < n"
      using trace that by simp
  qed
next
  show "getBlobStorageClientForStorageAccount api w (Get d ''resource_group_name'')
          (Get d ''storage_account_name'') = (c, True, None)
      \<and> Container_Exists api w (c, Get d ''name'') = (False, None)
      \<and> Retry (120 * Second) (checkContainerIsCreated api (c, Get d ''name'')) w = (Some e, w')
    \<longrightarrow> resourceArmStorageContainerCreate api d w =
          (Some (Errorf ''Error creating container %q in storage account %q: %s''
                   [Get d ''name'', Get d ''storage_account_name'', e]), d, w')"
    by (intro impI, elim conjE, rule container_create_retry_fatal)
qed

text \<open>
  Witness for C5: every call of \<^verbatim>\<open>CreateIfNotExists\<close> takes 50 seconds and the budget is 120
  seconds. After one transient failure the second attempt starts at 50 seconds and succeeds
  at 100: the wrapper succeeds. After two, the third attempt starts at 100 seconds and
  answers at 150, after the budget: the wrapper returns a timeout error although the call
  succeeded. With three transient failures no attempt succeeds within the budget: the run
  ends after 3 attempts, at 150 seconds, with the last failure, and Create returns it.
\<close>

theorem C5_bounded_retry_witness:
  "succeeds_within (120 * Second) (checkContainerIsCreated (sim_blobs (50 * Second)) (''acct'', ''tab1''))
       (0, ([(''acct'', [''tab0''])], 1)) 1
   \<and> fst (Retry (120 * Second) (checkContainerIsCreated (sim_blobs (50 * Second)) (''acct'', ''tab1''))
          ([(''acct'', [''tab0''])], 1)) = None
   \<and> Retry_run (120 * Second) (checkContainerIsCreated (sim_blobs (50 * Second)) (''acct'', ''tab1'')) 0 0 None
         ([(''acct'', [''tab0''])], 2) =
       ((Some ''timeout'', 3, 150 * Second + 2), ([(''acct'', [''tab0'', ''tab1''])], 0))
   \<and> Retry_run (120 * Second) (checkContainerIsCreated (sim_blobs (50 * Second)) (''acct'', ''tab1'')) 0 0 None
         ([(''acct'', [''tab0''])], 3) =
       ((Some ''503 ServerBusy'', 3, 150 * Second + 2), ([(''acct'', [''tab0''])], 0))
   \<and> 120 * Second \<le> 150 * Second + 2
   \<and> fst (after_attempts (checkContainerIsCreated (sim_blobs (50 * Second)) (''acct'', ''tab1'')) 2
            (0, ([(''acct'', [''tab0''])], 3))) < 120 * Second
   \<and> \<not> (\<exists>k. succeeds_within (120 * Second)
              (checkContainerIsCreated (sim_blobs (50 * Second)) (''acct'', ''tab1''))
              (0, ([(''acct'', [''tab0''])], 3)) k)
   \<and> resourceArmStorageContainerCreate (sim_blobs (50 * Second)) example_resource ([(''acct'', [''tab0''])], 3) =
       (Some (Errorf ''Error creating container %q in storage account %q: %s''
                [''tab1'', ''acct'', ''503 ServerBusy'']), example_resource, ([(''acct'', [''tab0''])], 0))"
proof -
  let ?api = "sim_blobs (50 * Second)"
  let ?f = "checkContainerIsCreated ?api (''acct'', ''tab1'')"
  let ?w = "[(''acct'', [''tab0''])]"
  have second: "succeeds_within (120 * Second) ?f (0, (?w, 1)) 1"
    unfolding succeeds_within_def sim_one_failure
    by (simp add: sim_check_create Second_def)
  have succeeds: "fst (Retry (120 * Second) ?f (?w, 1)) = None"
    using second
      C5_bounded_retry [where api = ?api and reference = "(''acct'', ''tab1'')" and w = "(?w, 1)"
        and timeout = "120 * Second", THEN conjunct2, THEN conjunct1, THEN iffD2, OF exI]
    by simp
  have bounds: "120 * Second \<le> 150 * Second + 2
      \<and> fst (after_attempts ?f 2 (0, (?w, 3))) < 120 * Second"
    using sim_three_failures_run
      C5_bounded_retry [where api = ?api and reference = "(''acct'', ''tab1'')" and w = "(?w, 3)"
        and timeout = "120 * Second" and r = "Some ''503 ServerBusy''" and n = 3 and t = "150 * Second + 2"
        and w' = "(?w, 0)", THEN conjunct2, THEN conjunct2, THEN conjunct1]
    by simp
  have failed: "fst (Retry (120 * Second) ?f (?w, 3)) \<noteq> None"
    by (simp add: Retry_def sim_three_failures_run)
  have never: "\<not> (\<exists>k. succeeds_within (120 * Second) ?f (0, (?w, 3)) k)"
    using failed
      C5_bounded_retry [where api = ?api and reference = "(''acct'', ''tab1'')" and w = "(?w, 3)"
        and timeout = "120 * Second", THEN conjunct2, THEN conjunct1]
    by simp
  have rB: "getBlobStorageClientForStorageAccount ?api (?w, 3) (Get example_resource ''resource_group_name'')
              (Get example_resource ''storage_account_name'') = (''acct'', True, None)"
    by (simp add: sim_blobs_def example_resource_fields sim_resolve_found)
  have eB: "Container_Exists ?api (?w, 3) (''acct'', Get example_resource ''name'') = (False, None)"
    by (simp add: sim_blobs_def example_resource_fields sim_names_acct)
  have retry: "Retry (120 * Second) (checkContainerIsCreated ?api (''acct'', Get example_resource ''name'')) (?w, 3)
                 = (Some ''503 ServerBusy'', (?w, 0))"
    by (simp add: Retry_def sim_three_failures_run example_resource_fields)
  have fatal: "resourceArmStorageContainerCreate ?api example_resource (?w, 3) =
       (Some (Errorf ''Error creating container %q in storage account %q: %s''
                [''tab1'', ''acct'', ''503 ServerBusy'']), example_resource, (?w, 0))"
    using rB eB retry
      C5_bounded_retry [where api = ?api and d = example_resource and w = "(?w, 3)" and c = "''acct''"
        and e = "''503 ServerBusy''" and w' = "(?w, 0)",
        THEN conjunct2, THEN conjunct2, THEN conjunct2]
    by (simp add: example_resource_fields)
  from bounds have late: "120 * Second \<le> 150 * Second + 2"
    and started: "fst (after_attempts ?f 2 (0, (?w, 3))) < 120 * Second"
    by simp_all
  show ?thesis
    by (intro conjI second succeeds sim_two_failures_run sim_three_failures_run late started never fatal)
qed

section \<open>Create followed by Read\<close>

text \<open>A Read makes queries only: it leaves the remote side as it is.\<close>

lemma table_read_remote: "snd (snd (resourceArmStorageTableRead api d w)) = w"
  by (simp add: resourceArmStorageTableRead_def Let_def split: prod.splits option.splits sum.splits)

lemma queue_exists_remote: "snd (snd (resourceArmStorageQueueExists api d w)) = w"
  by (simp add: resourceArmStorageQueueExists_def Let_def split: prod.splits option.splits)

lemma queue_read_remote: "snd (snd (resourceArmStorageQueueRead api d w)) = w"
  using queue_exists_remote [of api d w]
  by (auto simp: resourceArmStorageQueueRead_def split: prod.splits option.splits)

lemma container_read_remote: "snd (snd (resourceArmStorageContainerRead api d w)) = w"
  by (simp add: resourceArmStorageContainerRead_def Let_def split: prod.splits option.splits sum.splits)

lemma file_read_remote: "snd (snd (resourceArmDataLakeStoreFileRead api d w)) = w"
  by (simp add: resourceArmDataLakeStoreFileRead_def Let_def split: prod.splits option.splits)

text \<open>A Create that returns no error has set the identifier to the declared name and ended
  with the Read of the resource, made on the remote state that Create leaves.\<close>

lemma table_create_success:
  assumes "resourceArmStorageTableCreate api d w = (None, d1, w1)"
  shows "resourceArmStorageTableRead api (d\<lparr>Id := Get d ''name''\<rparr>) w1 = (None, d1, w1)"
proof -
  from assms obtain w' where rd: "resourceArmStorageTableRead api (d\<lparr>Id := Get d ''name''\<rparr>) w' = (None, d1, w1)"
    by (auto simp: resourceArmStorageTableCreate_def Let_def
        split: prod.splits option.splits sum.splits if_splits)
  with table_read_remote [of api "d\<lparr>Id := Get d ''name''\<rparr>" w'] have "w1 = w'" by simp
  with rd show ?thesis by simp
qed

lemma queue_create_success:
  assumes "resourceArmStorageQueueCreate api d w = (None, d1, w1)"
  shows "resourceArmStorageQueueRead api (d\<lparr>Id := Get d ''name''\<rparr>) w1 = (None, d1, w1)"
proof -
  from assms obtain w' where rd: "resourceArmStorageQueueRead api (d\<lparr>Id := Get d ''name''\<rparr>) w' = (None, d1, w1)"
    by (auto simp: resourceArmStorageQueueCreate_def Let_def
        split: prod.splits option.splits if_splits)
  with queue_read_remote [of api "d\<lparr>Id := Get d ''name''\<rparr>" w'] have "w1 = w'" by simp
  with rd show ?thesis by simp
qed

lemma container_create_success:
  assumes "resourceArmStorageContainerCreate api d w = (None, d1, w1)"
  shows "resourceArmStorageContainerRead api (d\<lparr>Id := Get d ''name''\<rparr>) w1 = (None, d1, w1)"
proof -
  from assms obtain w' where rd: "resourceArmStorageContainerRead api (d\<lparr>Id := Get d ''name''\<rparr>) w' = (None, d1, w1)"
    by (auto simp: resourceArmStorageContainerCreate_def Let_def
        split: prod.splits option.splits if_splits)
  with container_read_remote [of api "d\<lparr>Id := Get d ''name''\<rparr>" w'] have "w1 = w'" by simp
  with rd show ?thesis by simp
qed

lemma file_create_success:
  assumes "resourceArmDataLakeStoreFileCreate api d w = (None, d1, w1)"
  shows "resourceArmDataLakeStoreFileRead api (d\<lparr>Id := Get d ''remote_file_path''\<rparr>) w1 = (None, d1, w1)"
proof -
  from assms obtain w' where rd:
    "resourceArmDataLakeStoreFileRead api (d\<lparr>Id := Get d ''remote_file_path''\<rparr>) w' = (None, d1, w1)"
    by (auto simp: resourceArmDataLakeStoreFileCreate_def Let_def
        split: prod.splits option.splits sum.splits)
  with file_read_remote [of api "d\<lparr>Id := Get d ''remote_file_path''\<rparr>" w'] have "w1 = w'" by simp
  with rd show ?thesis by simp
qed

lemma table_create_then_read:
  assumes created: "resourceArmStorageTableCreate api d w = (None, d1, w1)"
    and shown: "table_present api d w1"
  shows "Id d1 = Get d ''name'' \<and> fst (resourceArmStorageTableRead api d1 w1) = None
         \<and> Id (fst (snd (resourceArmStorageTableRead api d1 w1))) = Get d ''name''"
proof -
  let ?d0 = "d\<lparr>Id := Get d ''name''\<rparr>"
  from shown obtain c ts where
    r: "getTableServiceClientForStorageAccount api w1 (Get d ''resource_group_name'')
          (Get d ''storage_account_name'') = (c, True, None)"
    and q: "QueryTables api w1 c = Inr ts"
    and m: "Get d ''name'' \<in> Table.Name ` set ts"
    by (auto simp: table_present_def split: prod.splits sum.splits)
  from m have nonempty: "ts \<noteq> []" by auto
  have "resourceArmStorageTableRead api ?d0 w1 =
          (None, ?d0\<lparr>Get := (Get ?d0)(''name'' := Table.Name (last ts))\<rparr>, w1)"
    using r q m by (intro table_read_present) simp_all
  with table_create_success [OF created]
  have d1: "d1 = ?d0\<lparr>Get := (Get ?d0)(''name'' := Table.Name (last ts))\<rparr>"
    by simp
  have r1: "getTableServiceClientForStorageAccount api w1 (Get d1 ''resource_group_name'')
          (Get d1 ''storage_account_name'') = (c, True, None)"
    using r by (simp add: d1)
  have m1: "Get d1 ''name'' \<in> Table.Name ` set ts"
    using nonempty by (simp add: d1)
  from table_read_present [OF r1 q m1]
  have "resourceArmStorageTableRead api d1 w1 =
          (None, d1\<lparr>Get := (Get d1)(''name'' := Table.Name (last ts))\<rparr>, w1)" .
  then show ?thesis
    by (simp add: d1)
qed

lemma queue_create_then_read:
  assumes created: "resourceArmStorageQueueCreate api d w = (None, d1, w1)"
    and shown: "queue_present api d w1"
  shows "Id d1 = Get d ''name'' \<and> fst (resourceArmStorageQueueRead api d1 w1) = None
         \<and> Id (fst (snd (resourceArmStorageQueueRead api d1 w1))) = Get d ''name''"
proof -
  let ?d0 = "d\<lparr>Id := Get d ''name''\<rparr>"
  from shown obtain c where
    r: "getQueueServiceClientForStorageAccount api w1 (Get d ''resource_group_name'')
          (Get d ''storage_account_name'') = (c, True, None)"
    and e: "Queue_Exists api w1 (c, Get d ''name'') = (True, None)"
    by (auto simp: queue_present_def split: prod.splits)
  have "resourceArmStorageQueueRead api ?d0 w1 = (None, (if True then ?d0 else ?d0\<lparr>Id := ''''\<rparr>), w1)"
    using r e by (intro queue_read_answer) simp_all
  then have rd: "resourceArmStorageQueueRead api ?d0 w1 = (None, ?d0, w1)" by simp
  with queue_create_success [OF created] have "d1 = ?d0" by simp
  with rd show ?thesis by simp
qed

lemma container_create_then_read:
  assumes created: "resourceArmStorageContainerCreate api d w = (None, d1, w1)"
    and shown: "container_present api d w1"
  shows "Id d1 = Get d ''name'' \<and> fst (resourceArmStorageContainerRead api d1 w1) = None
         \<and> Id (fst (snd (resourceArmStorageContainerRead api d1 w1))) = Get d ''name''"
proof -
  let ?d0 = "d\<lparr>Id := Get d ''name''\<rparr>"
  from shown obtain c cs where
    r: "getBlobStorageClientForStorageAccount api w1 (Get d ''resource_group_name'')
          (Get d ''storage_account_name'') = (c, True, None)"
    and l: "ListContainers api w1 c (Get d ''name'') = Inr cs"
    and m: "Get d ''name'' \<in> Container.Name ` set cs"
    by (auto simp: container_present_def container_listed_def split: prod.splits sum.splits)
  have "\<exists>cont \<in> set cs. Container.Name cont = Get ?d0 ''name'' \<and>
          resourceArmStorageContainerRead api ?d0 w1 = (None, ?d0\<lparr>properties := props cont\<rparr>, w1)"
    using r l m by (intro container_read_refreshes) simp_all
  with container_create_success [OF created]
  obtain cont where d1: "d1 = ?d0\<lparr>properties := props cont\<rparr>"
    by auto
  have "\<exists>cont \<in> set cs. Container.Name cont = Get d1 ''name'' \<and>
          resourceArmStorageContainerRead api d1 w1 = (None, d1\<lparr>properties := props cont\<rparr>, w1)"
    using r l m by (intro container_read_refreshes) (simp_all add: d1)
  then show ?thesis
    by (auto simp: d1)
qed

lemma file_create_then_read:
  assumes created: "resourceArmDataLakeStoreFileCreate api d w = (None, d1, w1)"
    and shown: "file_present api d w1"
  shows "Id d1 = Get d ''remote_file_path'' \<and> fst (resourceArmDataLakeStoreFileRead api d1 w1) = None
         \<and> Id (fst (snd (resourceArmDataLakeStoreFileRead api d1 w1))) = Get d ''remote_file_path''"
proof -
  let ?d0 = "d\<lparr>Id := Get d ''remote_file_path''\<rparr>"
  from shown obtain resp where
    s: "GetFileStatus api w1 (Get d ''account_name'') (Get d ''remote_file_path'') = (resp, None)"
    by (cases "GetFileStatus api w1 (Get d ''account_name'') (Get d ''remote_file_path'')")
       (simp add: file_present_def)
  have rd: "resourceArmDataLakeStoreFileRead api ?d0 w1 = (None, ?d0, w1)"
    using s by (intro file_read_present [where resp = resp]) simp
  with file_create_success [OF created] have "d1 = ?d0" by simp
  with rd show ?thesis by simp
qed

text \<open>What a remote side that lets a client read its writes gives for one call.\<close>

lemma table_create_listed:
  assumes "table_reads_its_writes api"
    and "getTableServiceClientForStorageAccount api w rg a = (c, True, None)"
    and "Table_Create api (c, n) w = (None, w')"
  shows "getTableServiceClientForStorageAccount api w' rg a = (c, True, None)
         \<and> (\<exists>ts. QueryTables api w' c = Inr ts \<and> n \<in> Table.Name ` set ts)"
  using assms unfolding table_reads_its_writes_def by blast

lemma queue_create_exists_after:
  assumes "queue_reads_its_writes api"
    and "getQueueServiceClientForStorageAccount api w rg a = (c, True, None)"
    and "Queue_Create api (c, n) w = (None, w')"
  shows "getQueueServiceClientForStorageAccount api w' rg a = (c, True, None)
         \<and> Queue_Exists api w' (c, n) = (True, None)"
  using assms unfolding queue_reads_its_writes_def by blast

lemma container_create_if_not_exists_listed:
  assumes "blob_reads_its_writes api"
    and "getBlobStorageClientForStorageAccount api w rg a = (c, True, None)"
    and "Container_CreateIfNotExists api (c, n) w = (((created, err), took), w')"
  shows "getBlobStorageClientForStorageAccount api w' rg a = (c, True, None)
         \<and> (err = None \<longrightarrow> container_listed api w' c n)"
  using assms unfolding blob_reads_its_writes_def by blast

lemma container_set_permissions_listed:
  assumes "blob_reads_its_writes api"
    and "getBlobStorageClientForStorageAccount api w rg a = (c, True, None)"
    and "container_listed api w c n"
    and "Container_SetPermissions api (c, n) accessType w = (None, w')"
  shows "getBlobStorageClientForStorageAccount api w' rg a = (c, True, None)
         \<and> container_listed api w' c n"
  using assms unfolding blob_reads_its_writes_def by blast

lemma file_create_status:
  assumes "file_reads_its_writes api"
    and "Files_Create api account path contents False w = (None, w')"
  shows "snd (GetFileStatus api w' account path) = None"
  using assms unfolding file_reads_its_writes_def by blast

text \<open>A retry of \<^verbatim>\<open>checkContainerIsCreated\<close> that returns success leaves the account resolving
  and the container listed.\<close>

lemma retry_create_listed:
  assumes law: "blob_reads_its_writes api"
    and r: "getBlobStorageClientForStorageAccount api w rg a = (c, True, None)"
    and run: "Retry timeout (checkContainerIsCreated api (c, n)) w = (None, w1)"
  shows "getBlobStorageClientForStorageAccount api w1 rg a = (c, True, None)
         \<and> container_listed api w1 c n"
proof -
  let ?I = "\<lambda>w. getBlobStorageClientForStorageAccount api w rg a = (c, True, None)"
  let ?Q = "\<lambda>w. getBlobStorageClientForStorageAccount api w rg a = (c, True, None)
                \<and> container_listed api w c n"
  have step: "?I w' \<and> (res = None \<longrightarrow> ?Q w')"
    if inv: "?I w" and call: "checkContainerIsCreated api (c, n) w = ((res, took), w')"
    for w res took w'
  proof -
    obtain created err where
      cr: "Container_CreateIfNotExists api (c, n) w = (((created, err), took), w')"
      and res: "res = None \<longleftrightarrow> err = None"
      using call by (auto simp: checkContainerIsCreated_def split: prod.splits option.splits)
    from container_create_if_not_exists_listed [OF law inv cr] res show ?thesis
      by simp
  qed
  from run obtain k t where
    "Retry_run timeout (checkContainerIsCreated api (c, n)) 0 0 None w = ((None, k, t), w1)"
    by (auto simp: Retry_def split: prod.splits)
  with step r show ?thesis
    by (rule Retry_run_success_state [where I = ?I and Q = ?Q
          and f = "checkContainerIsCreated api (c, n)"])
qed

text \<open>The calls a Create that returns no error has made.\<close>

lemma table_create_calls:
  assumes "resourceArmStorageTableCreate api d w = (None, d1, w1)"
  shows "\<exists>c. getTableServiceClientForStorageAccount api w (Get d ''resource_group_name'')
               (Get d ''storage_account_name'') = (c, True, None)
             \<and> Table_Create api (c, Get d ''name'') w = (None, w1)"
proof -
  from assms obtain c w' where
    r: "getTableServiceClientForStorageAccount api w (Get d ''resource_group_name'')
          (Get d ''storage_account_name'') = (c, True, None)"
    and cr: "Table_Create api (c, Get d ''name'') w = (None, w')"
    and rd: "resourceArmStorageTableRead api (d\<lparr>Id := Get d ''name''\<rparr>) w' = (None, d1, w1)"
    by (auto simp: resourceArmStorageTableCreate_def Let_def
        split: prod.splits option.splits sum.splits if_splits)
  from rd table_read_remote [of api "d\<lparr>Id := Get d ''name''\<rparr>" w'] have "w1 = w'" by simp
  with r cr show ?thesis by simp
qed

lemma queue_create_calls:
  assumes "resourceArmStorageQueueCreate api d w = (None, d1, w1)"
  shows "\<exists>c. getQueueServiceClientForStorageAccount api w (Get d ''resource_group_name'')
               (Get d ''storage_account_name'') = (c, True, None)
             \<and> Queue_Create api (c, Get d ''name'') w = (None, w1)"
proof -
  from assms obtain c w' where
    r: "getQueueServiceClientForStorageAccount api w (Get d ''resource_group_name'')
          (Get d ''storage_account_name'') = (c, True, None)"
    and cr: "Queue_Create api (c, Get d ''name'') w = (None, w')"
    and rd: "resourceArmStorageQueueRead api (d\<lparr>Id := Get d ''name''\<rparr>) w' = (None, d1, w1)"
    by (auto simp: resourceArmStorageQueueCreate_def Let_def
        split: prod.splits option.splits if_splits)
  from rd queue_read_remote [of api "d\<lparr>Id := Get d ''name''\<rparr>" w'] have "w1 = w'" by simp
  with r cr show ?thesis by simp
qed

lemma container_create_calls:
  assumes "resourceArmStorageContainerCreate api d w = (None, d1, w1)"
  shows "\<exists>c w' accessType.
           getBlobStorageClientForStorageAccount api w (Get d ''resource_group_name'')
               (Get d ''storage_account_name'') = (c, True, None)
           \<and> Retry (120 * Second) (checkContainerIsCreated api (c, Get d ''name'')) w = (None, w')
           \<and> Container_SetPermissions api (c, Get d ''name'') accessType w' = (None, w1)"
proof -
  from assms obtain c w' accessType w'' where
    r: "getBlobStorageClientForStorageAccount api w (Get d ''resource_group_name'')
          (Get d ''storage_account_name'') = (c, True, None)"
    and run: "Retry (120 * Second) (checkContainerIsCreated api (c, Get d ''name'')) w = (None, w')"
    and sp: "Container_SetPermissions api (c, Get d ''name'') accessType w' = (None, w'')"
    and rd: "resourceArmStorageContainerRead api (d\<lparr>Id := Get d ''name''\<rparr>) w'' = (None, d1, w1)"
    by (auto simp: resourceArmStorageContainerCreate_def Let_def
        split: prod.splits option.splits if_splits)
  from rd container_read_remote [of api "d\<lparr>Id := Get d ''name''\<rparr>" w''] have "w1 = w''" by simp
  with r run sp show ?thesis by blast
qed

lemma file_create_calls:
  assumes "resourceArmDataLakeStoreFileCreate api d w = (None, d1, w1)"
  shows "\<exists>contents. Files_Create api (Get d ''account_name'') (Get d ''remote_file_path'')
                       contents False w = (None, w1)"
proof -
  from assms obtain contents w' where
    cr: "Files_Create api (Get d ''account_name'') (Get d ''remote_file_path'') contents False w = (None, w')"
    and rd: "resourceArmDataLakeStoreFileRead api (d\<lparr>Id := Get d ''remote_file_path''\<rparr>) w' = (None, d1, w1)"
    by (auto simp: resourceArmDataLakeStoreFileCreate_def Let_def
        split: prod.splits option.splits sum.splits)
  from rd file_read_remote [of api "d\<lparr>Id := Get d ''remote_file_path''\<rparr>" w'] have "w1 = w'" by simp
  with cr show ?thesis by blast
qed

text \<open>On a remote side that lets a client read its writes, the state a successful Create
  leaves shows the created object.\<close>

lemma table_created_present:
  assumes law: "table_reads_its_writes api"
    and created: "resourceArmStorageTableCreate api d w = (None, d1, w1)"
  shows "table_present api d w1"
proof -
  from table_create_calls [OF created] obtain c where
    r: "getTableServiceClientForStorageAccount api w (Get d ''resource_group_name'')
          (Get d ''storage_account_name'') = (c, True, None)"
    and cr: "Table_Create api (c, Get d ''name'') w = (None, w1)"
    by blast
  from table_create_listed [OF law r cr] show ?thesis
    by (auto simp: table_present_def)
qed

lemma queue_created_present:
  assumes law: "queue_reads_its_writes api"
    and created: "resourceArmStorageQueueCreate api d w = (None, d1, w1)"
  shows "queue_present api d w1"
proof -
  from queue_create_calls [OF created] obtain c where
    r: "getQueueServiceClientForStorageAccount api w (Get d ''resource_group_name'')
          (Get d ''storage_account_name'') = (c, True, None)"
    and cr: "Queue_Create api (c, Get d ''name'') w = (None, w1)"
    by blast
  from queue_create_exists_after [OF law r cr] show ?thesis
    by (simp add: queue_present_def)
qed

lemma container_created_present:
  assumes law: "blob_reads_its_writes api"
    and created: "resourceArmStorageContainerCreate api d w = (None, d1, w1)"
  shows "container_present api d w1"
proof -
  from container_create_calls [OF created] obtain c w' accessType where
    r: "getBlobStorageClientForStorageAccount api w (Get d ''resource_group_name'')
          (Get d ''storage_account_name'') = (c, True, None)"
    and run: "Retry (120 * Second) (checkContainerIsCreated api (c, Get d ''name'')) w = (None, w')"
    and sp: "Container_SetPermissions api (c, Get d ''name'') accessType w' = (None, w1)"
    by blast
  from retry_create_listed [OF law r run] have
    r': "getBlobStorageClientForStorageAccount api w' (Get d ''resource_group_name'')
          (Get d ''storage_account_name'') = (c, True, None)"
    and l': "container_listed api w' c (Get d ''name'')"
    by simp_all
  from container_set_permissions_listed [OF law r' l' sp] show ?thesis
    by (simp add: container_present_def)
qed

lemma file_created_present:
  assumes law: "file_reads_its_writes api"
    and created: "resourceArmDataLakeStoreFileCreate api d w = (None, d1, w1)"
  shows "file_present api d w1"
proof -
  from file_create_calls [OF created] obtain contents where
    "Files_Create api (Get d ''account_name'') (Get d ''remote_file_path'') contents False w = (None, w1)"
    by blast
  from file_create_status [OF law this] show ?thesis
    by (simp add: file_present_def)
qed

text \<open>The simulated remote sides let a client read its writes.\<close>

lemma map_of_sim_put:
  "map_of (sim_put w a ns) b = (if b = a then map_option (\<lambda>x. ns) (map_of w a) else map_of w b)"
proof (induction w)
  case Nil
  show ?case by (simp add: sim_put_def)
next
  case (Cons p w)
  obtain a' ns' where p: "p = (a', ns')" by (cases p)
  from Cons show ?case
    by (auto simp: sim_put_def p)
qed

lemma sim_put_names: "map_of w a \<noteq> None \<Longrightarrow> sim_names (sim_put w a ns) a = ns"
  by (auto simp: sim_names_def map_of_sim_put)

lemma sim_container_Name: "Container.Name (sim_container n) = n"
  by (simp add: sim_container_def)

lemma sim_tables_reads_its_writes: "table_reads_its_writes sim_tables"
  unfolding table_reads_its_writes_def
  by (auto simp: sim_tables_def sim_resolve_def sim_create_def sim_put_names map_of_sim_put
      split: if_splits)

lemma sim_queues_reads_its_writes: "queue_reads_its_writes sim_queues"
  unfolding queue_reads_its_writes_def
  by (auto simp: sim_queues_def sim_resolve_def sim_create_def sim_put_names map_of_sim_put
      split: if_splits)

lemma sim_listed:
  "n \<in> set ns \<Longrightarrow> n \<in> Container.Name ` set (map sim_container (filter (\<lambda>m. take (length n) m = n) ns))"
  by (force simp: sim_container_def)

lemma sim_blobs_reads_its_writes: "blob_reads_its_writes (sim_blobs took)"
  unfolding blob_reads_its_writes_def
  by (auto simp: sim_blobs_def sim_resolve_def container_listed_def sim_listed sim_container_Name
      sim_put_names map_of_sim_put simp del: set_map set_filter split: if_splits nat.splits)

lemma sim_file_api_reads_its_writes: "file_reads_its_writes sim_file_api"
  unfolding file_reads_its_writes_def
  by (auto simp: sim_file_api_def split: if_splits)

text \<open>
  Claim C8: for every resource kind, on a remote side that lets a client read its writes
  (a successful \<^verbatim>\<open>Table.Create\<close> makes \<^verbatim>\<open>QueryTables\<close> list the name, a successful
  \<^verbatim>\<open>Queue.Create\<close> makes \<^verbatim>\<open>Queue.Exists\<close> answer true, a successful \<^verbatim>\<open>CreateIfNotExists\<close>
  makes \<^verbatim>\<open>ListContainers\<close> list the name and \<^verbatim>\<open>SetPermissions\<close> keeps it listed, a
  successful \<^verbatim>\<open>Files.Create\<close> makes the status request succeed), after a Create that
  returns success the local identifier is the declared name (the declared remote path for
  the file), and a Read made next returns success and leaves the local identifier equal to
  that name: the resource is present.
\<close>

theorem C8_create_then_read:
  "(table_reads_its_writes apiT \<and> resourceArmStorageTableCreate apiT d wT = (None, d', wT')
    \<longrightarrow> Id d' = Get d ''name'' \<and> fst (resourceArmStorageTableRead apiT d' wT') = None
        \<and> Id (fst (snd (resourceArmStorageTableRead apiT d' wT'))) = Get d ''name'')
   \<and> (queue_reads_its_writes apiQ \<and> resourceArmStorageQueueCreate apiQ d wQ = (None, d', wQ')
    \<longrightarrow> Id d' = Get d ''name'' \<and> fst (resourceArmStorageQueueRead apiQ d' wQ') = None
        \<and> Id (fst (snd (resourceArmStorageQueueRead apiQ d' wQ'))) = Get d ''name'')
   \<and> (blob_reads_its_writes apiB \<and> resourceArmStorageContainerCreate apiB d wB = (None, d', wB')
    \<longrightarrow> Id d' = Get d ''name'' \<and> fst (resourceArmStorageContainerRead apiB d' wB') = None
        \<and> Id (fst (snd (resourceArmStorageContainerRead apiB d' wB'))) = Get d ''name'')
   \<and> (file_reads_its_writes apiF \<and> resourceArmDataLakeStoreFileCreate apiF d wF = (None, d', wF')
    \<longrightarrow> Id d' = Get d ''remote_file_path'' \<and> fst (resourceArmDataLakeStoreFileRead apiF d' wF') = None
        \<and> Id (fst (snd (resourceArmDataLakeStoreFileRead apiF d' wF'))) = Get d ''remote_file_path'')"
proof (intro conjI impI)
  assume a: "table_reads_its_writes apiT \<and> resourceArmStorageTableCreate apiT d wT = (None, d', wT')"
  then have created: "resourceArmStorageTableCreate apiT d wT = (None, d', wT')" and law: "table_reads_its_writes apiT"
    by simp_all
  from table_create_then_read [OF created table_created_present [OF law created]]
  show "Id d' = Get d ''name''"
    and "fst (resourceArmStorageTableRead apiT d' wT') = None"
    and "Id (fst (snd (resourceArmStorageTableRead apiT d' wT'))) = Get d ''name''"
    by simp_all
next
  assume a: "queue_reads_its_writes apiQ \<and> resourceArmStorageQueueCreate apiQ d wQ = (None, d', wQ')"
  then have created: "resourceArmStorageQueueCreate apiQ d wQ = (None, d', wQ')" and law: "queue_reads_its_writes apiQ"
    by simp_all
  from queue_create_then_read [OF created queue_created_present [OF law created]]
  show "Id d' = Get d ''name''"
    and "fst (resourceArmStorageQueueRead apiQ d' wQ') = None"
    and "Id (fst (snd (resourceArmStorageQueueRead apiQ d' wQ'))) = Get d ''name''"
    by simp_all
next
  assume a: "blob_reads_its_writes apiB \<and> resourceArmStorageContainerCreate apiB d wB = (None, d', wB')"
  then have created: "resourceArmStorageContainerCreate apiB d wB = (None, d', wB')" and law: "blob_reads_its_writes apiB"
    by simp_all
  from container_create_then_read [OF created container_created_present [OF law created]]
  show "Id d' = Get d ''name''"
    and "fst (resourceArmStorageContainerRead apiB d' wB') = None"
    and "Id (fst (snd (resourceArmStorageContainerRead apiB d' wB'))) = Get d ''name''"
    by simp_all
next
  assume a: "file_reads_its_writes apiF \<and> resourceArmDataLakeStoreFileCreate apiF d wF = (None, d', wF')"
  then have created: "resourceArmDataLakeStoreFileCreate apiF d wF = (None, d', wF')" and law: "file_reads_its_writes apiF"
    by simp_all
  from file_create_then_read [OF created file_created_present [OF law created]]
  show "Id d' = Get d ''remote_file_path''"
    and "fst (resourceArmDataLakeStoreFileRead apiF d' wF') = None"
    and "Id (fst (snd (resourceArmDataLakeStoreFileRead apiF d' wF'))) = Get d ''remote_file_path''"
    by simp_all
qed

text \<open>
  Witness for C8: the simulated remote sides let a client read its writes. \<open>tab1\<close> is created
  beside \<open>tab0\<close> as a table, as a queue and as a container (the first call of
  \<^verbatim>\<open>CreateIfNotExists\<close> succeeds), and the local file \<open>/tmp/x\<close> is uploaded to \<open>/a/b\<close>; the
  Read that follows keeps the identifier.
\<close>

theorem C8_create_then_read_witness:
  "table_reads_its_writes sim_tables
   \<and> fst (resourceArmStorageTableCreate sim_tables example_resource [(''acct'', [''tab0''])]) = None
   \<and> Id (fst (snd (resourceArmStorageTableRead sim_tables
          (fst (snd (resourceArmStorageTableCreate sim_tables example_resource [(''acct'', [''tab0''])])))
          (snd (snd (resourceArmStorageTableCreate sim_tables example_resource [(''acct'', [''tab0''])])))))) = ''tab1''
   \<and> queue_reads_its_writes sim_queues
   \<and> fst (resourceArmStorageQueueCreate sim_queues example_resource [(''acct'', [''tab0''])]) = None
   \<and> Id (fst (snd (resourceArmStorageQueueRead sim_queues
          (fst (snd (resourceArmStorageQueueCreate sim_queues example_resource [(''acct'', [''tab0''])])))
          (snd (snd (resourceArmStorageQueueCreate sim_queues example_resource [(''acct'', [''tab0''])])))))) = ''tab1''
   \<and> blob_reads_its_writes (sim_blobs Second)
   \<and> fst (resourceArmStorageContainerCreate (sim_blobs Second) example_resource ([(''acct'', [''tab0''])], 0)) = None
   \<and> Id (fst (snd (resourceArmStorageContainerRead (sim_blobs Second)
          (fst (snd (resourceArmStorageContainerCreate (sim_blobs Second) example_resource ([(''acct'', [''tab0''])], 0))))
          (snd (snd (resourceArmStorageContainerCreate (sim_blobs Second) example_resource ([(''acct'', [''tab0''])], 0))))))) = ''tab1''
   \<and> file_reads_its_writes sim_file_api
   \<and> fst (resourceArmDataLakeStoreFileCreate sim_file_api example_file ([(''/tmp/x'', ''hello'')], [])) = None
   \<and> Id (fst (snd (resourceArmDataLakeStoreFileRead sim_file_api
          (fst (snd (resourceArmDataLakeStoreFileCreate sim_file_api example_file ([(''/tmp/x'', ''hello'')], []))))
          (snd (snd (resourceArmDataLakeStoreFileCreate sim_file_api example_file ([(''/tmp/x'', ''hello'')], []))))))) = ''/a/b''"
proof -
  let ?w = "[(''acct'', [''tab0''])]"
  let ?w1 = "[(''acct'', [''tab0'', ''tab1''])]"
  let ?T = "resourceArmStorageTableCreate sim_tables example_resource ?w"
  let ?Q = "resourceArmStorageQueueCreate sim_queues example_resource ?w"
  let ?B = "resourceArmStorageContainerCreate (sim_blobs Second) example_resource (?w, 0)"
  let ?F = "resourceArmDataLakeStoreFileCreate sim_file_api example_file ([(''/tmp/x'', ''hello'')], [])"
  note Tl = sim_tables_reads_its_writes
  note Ql = sim_queues_reads_its_writes
  note Bl = sim_blobs_reads_its_writes [of Second]
  note Fl = sim_file_api_reads_its_writes
  have T: "fst ?T = None" "snd (snd ?T) = ?w1"
    by (simp_all add: resourceArmStorageTableCreate_def resourceArmStorageTableRead_def Let_def
        sim_tables_def sim_resolve_def sim_names_def sim_put_def sim_create_def example_resource_fields)
  have Q: "fst ?Q = None" "snd (snd ?Q) = ?w1"
    by (simp_all add: resourceArmStorageQueueCreate_def resourceArmStorageQueueRead_def
        resourceArmStorageQueueExists_def Let_def
        sim_queues_def sim_resolve_def sim_names_def sim_put_def sim_create_def example_resource_fields)
  have retry: "Retry (120 * Second) (checkContainerIsCreated (sim_blobs Second) (''acct'', ''tab1'')) (?w, 0)
                 = (None, (?w1, 0))"
    by (simp add: Retry_def Retry_run.simps sim_check_create Second_def)
  have rB: "getBlobStorageClientForStorageAccount (sim_blobs Second) ([(''acct'', ns)], 0) ''rg'' ''acct''
              = (''acct'', True, None)" for ns
    by (simp add: sim_blobs_def sim_resolve_found)
  have eB: "Container_Exists (sim_blobs Second) (?w, 0) (''acct'', ''tab1'') = (False, None)"
    by (simp add: sim_blobs_def sim_names_acct)
  have pB: "Container_SetPermissions (sim_blobs Second) (''acct'', ''tab1'') [] (?w1, 0) = (None, (?w1, 0))"
    by (simp add: sim_blobs_def sim_names_acct)
  have lB: "ListContainers (sim_blobs Second) (?w1, 0) ''acct'' ''tab1'' = Inr [sim_container ''tab1'']"
    by (simp add: sim_blobs_def sim_names_acct)
  have nB: "Container.Name (sim_container ''tab1'') = ''tab1''"
    by (simp add: sim_container_def)
  have B: "fst ?B = None" "snd (snd ?B) = (?w1, 0)"
    by (simp_all add: resourceArmStorageContainerCreate_def resourceArmStorageContainerRead_def Let_def
        example_resource_fields rB eB retry pB lB nB)
  have F: "fst ?F = None" "snd (snd ?F) = ([(''/tmp/x'', ''hello'')], [((''lake'', ''/a/b''), ''hello'')])"
    by (simp_all add: resourceArmDataLakeStoreFileCreate_def resourceArmDataLakeStoreFileRead_def Let_def
        sim_file_api_def example_file_fields)
  have Teq: "?T = (None, fst (snd ?T), ?w1)"
    using T by (cases ?T) simp
  have Qeq: "?Q = (None, fst (snd ?Q), ?w1)"
    using Q by (cases ?Q) simp
  have Beq: "?B = (None, fst (snd ?B), (?w1, 0))"
    using B by (cases ?B) simp
  have Feq: "?F = (None, fst (snd ?F), ([(''/tmp/x'', ''hello'')], [((''lake'', ''/a/b''), ''hello'')]))"
    using F by (cases ?F) simp
  have t: "Id (fst (snd (resourceArmStorageTableRead sim_tables (fst (snd ?T)) (snd (snd ?T))))) = ''tab1''"
    using Teq Tl
      C8_create_then_read [where apiT = sim_tables and d = example_resource and wT = ?w
        and d' = "fst (snd ?T)" and wT' = ?w1, THEN conjunct1]
    by (simp add: T(2) example_resource_fields)
  have q: "Id (fst (snd (resourceArmStorageQueueRead sim_queues (fst (snd ?Q)) (snd (snd ?Q))))) = ''tab1''"
    using Qeq Ql
      C8_create_then_read [where apiQ = sim_queues and d = example_resource and wQ = ?w
        and d' = "fst (snd ?Q)" and wQ' = ?w1, THEN conjunct2, THEN conjunct1]
    by (simp add: Q(2) example_resource_fields)
  have b: "Id (fst (snd (resourceArmStorageContainerRead (sim_blobs Second) (fst (snd ?B)) (snd (snd ?B))))) = ''tab1''"
    using Beq Bl
      C8_create_then_read [where apiB = "sim_blobs Second" and d = example_resource and wB = "(?w, 0)"
        and d' = "fst (snd ?B)" and wB' = "(?w1, 0)", THEN conjunct2, THEN conjunct2, THEN conjunct1]
    by (simp add: B(2) example_resource_fields)
  have f: "Id (fst (snd (resourceArmDataLakeStoreFileRead sim_file_api (fst (snd ?F)) (snd (snd ?F))))) = ''/a/b''"
    using Feq Fl
      C8_create_then_read [where apiF = sim_file_api and d = example_file and wF = "([(''/tmp/x'', ''hello'')], [])"
        and d' = "fst (snd ?F)" and wF' = "([(''/tmp/x'', ''hello'')], [((''lake'', ''/a/b''), ''hello'')])",
        THEN conjunct2, THEN conjunct2, THEN conjunct2]
    by (simp add: F(2) example_file_fields)
  show ?thesis
    by (intro conjI Tl T(1) t Ql Q(1) q Bl B(1) b Fl F(1) f)
qed

end
